theory Spec2Isabelle
  imports Complex_Main
begin

section \<open>JavaScript values: numbers, strings, regular expressions\<close>

text \<open>
  A JavaScript number is modelled as an exact rational, with \<open>NaN\<close> and \<open>undefined\<close>
  (what reading an absent property gives) as separate values. Binary rounding, overflow to
  an infinity and the literal \<open>Infinity\<close> are outside the model. Strings are lists of
  one-byte characters; white space, letters and case are those of ASCII.
\<close>

datatype jsnum = Num rat | NaN | Undefined

definition is_digit :: "char \<Rightarrow> bool" where
  "is_digit c \<longleftrightarrow> c \<in> set ''0123456789''"

definition is_hex :: "char \<Rightarrow> bool" where
  "is_hex c \<longleftrightarrow> c \<in> set ''0123456789abcdefABCDEF''"

definition is_space :: "char \<Rightarrow> bool" where
  "is_space c \<longleftrightarrow> (of_char c :: nat) \<in> set [9, 10, 11, 12, 13, 32]"

definition is_lower :: "char \<Rightarrow> bool" where
  "is_lower c \<longleftrightarrow> c \<in> set ''abcdefghijklmnopqrstuvwxyz''"

definition is_upper :: "char \<Rightarrow> bool" where
  "is_upper c \<longleftrightarrow> c \<in> set ''ABCDEFGHIJKLMNOPQRSTUVWXYZ''"

definition is_word :: "char \<Rightarrow> bool" where
  "is_word c \<longleftrightarrow> is_lower c \<or> is_upper c \<or> is_digit c \<or> c = CHR ''_''"

definition lower_char :: "char \<Rightarrow> char" where
  "lower_char c = (if is_upper c then char_of (of_char c + (32::nat)) else c)"

definition toLowerCase :: "string \<Rightarrow> string" where
  "toLowerCase s = map lower_char s"

definition trim :: "string \<Rightarrow> string" where
  "trim s = rev (dropWhile is_space (rev (dropWhile is_space s)))"

fun startsWith :: "string \<Rightarrow> string \<Rightarrow> bool" where
  "startsWith s [] = True"
| "startsWith [] (y # ys) = False"
| "startsWith (x # xs) (y # ys) = (x = y \<and> startsWith xs ys)"

definition endsWith :: "string \<Rightarrow> string \<Rightarrow> bool" where
  "endsWith s t = startsWith (rev s) (rev t)"

text \<open>\<open>indexOf\<close> gives the first position of a substring, \<open>None\<close> standing for \<open>-1\<close>.\<close>

fun indexOf_from :: "string \<Rightarrow> string \<Rightarrow> nat \<Rightarrow> nat option" where
  "indexOf_from [] t i = (if t = [] then Some i else None)"
| "indexOf_from (x # xs) t i =
     (if startsWith (x # xs) t then Some i else indexOf_from xs t (Suc i))"

definition indexOf :: "string \<Rightarrow> string \<Rightarrow> nat option" where
  "indexOf s t = indexOf_from s t 0"

definition str_includes :: "string \<Rightarrow> string \<Rightarrow> bool" where
  "str_includes s t \<longleftrightarrow> indexOf s t \<noteq> None"

text \<open>\<open>substring(a, b)\<close> swaps its arguments when \<open>a > b\<close> and clamps them to the length.\<close>

definition substring :: "string \<Rightarrow> nat \<Rightarrow> nat \<Rightarrow> string" where
  "substring s i j = take (max i j - min i j) (drop (min i j) s)"

text \<open>\<open>s.replace(t, u)\<close> with a string pattern replaces the first occurrence only.\<close>

definition replace_str :: "string \<Rightarrow> string \<Rightarrow> string \<Rightarrow> string" where
  "replace_str s t u =
     (case indexOf s t of
        None \<Rightarrow> s
      | Some i \<Rightarrow> take i s @ u @ drop (i + length t) s)"

subsection \<open>parseFloat and parseInt\<close>

definition digit_val :: "char \<Rightarrow> nat" where
  "digit_val c =
     (if is_digit c then of_char c - 48
      else if is_lower c then of_char c - 87
      else of_char c - 55)"

definition digits_val :: "nat \<Rightarrow> string \<Rightarrow> nat" where
  "digits_val radix ds = foldl (\<lambda>acc c. radix * acc + digit_val c) 0 ds"

definition split_sign :: "string \<Rightarrow> rat \<times> string" where
  "split_sign s =
     (case s of
        [] \<Rightarrow> (1, s)
      | c # t \<Rightarrow> if c = CHR ''-'' then (-1, t) else if c = CHR ''+'' then (1, t) else (1, s))"

definition exponent_of :: "string \<Rightarrow> rat" where
  "exponent_of s =
     (case s of
        [] \<Rightarrow> 1
      | e # t \<Rightarrow>
          if e = CHR ''e'' \<or> e = CHR ''E'' then
            (let (sg, u) = split_sign t; ds = takeWhile is_digit u
             in if ds = [] then 1
                else if sg < 0 then 1 / 10 ^ digits_val 10 ds
                else 10 ^ digits_val 10 ds)
          else 1)"

text \<open>
  \<open>parseFloat\<close> reads the longest decimal literal at the start of the string, after
  leading white space, and gives \<open>NaN\<close> when there is none.
\<close>

definition parseFloat :: "string \<Rightarrow> jsnum" where
  "parseFloat s =
     (let (sg, s1) = split_sign (dropWhile is_space s);
          ip = takeWhile is_digit s1;
          s2 = dropWhile is_digit s1;
          has_dot = (s2 \<noteq> [] \<and> hd s2 = CHR ''.'');
          fp = (if has_dot then takeWhile is_digit (tl s2) else []);
          s3 = (if has_dot then dropWhile is_digit (tl s2) else s2)
      in if ip = [] \<and> fp = [] then NaN
         else Num (sg * (of_nat (digits_val 10 ip) + of_nat (digits_val 10 fp) / 10 ^ length fp)
                    * exponent_of s3))"

text \<open>\<open>parseInt(s, radix)\<close> for radix 10 and 16 (without the \<open>0x\<close> prefix form).\<close>

definition parseInt :: "string \<Rightarrow> nat \<Rightarrow> jsnum" where
  "parseInt s radix =
     (let (sg, s1) = split_sign (dropWhile is_space s);
          ds = takeWhile (if radix = 16 then is_hex else is_digit) s1
      in if ds = [] then NaN else Num (sg * of_nat (digits_val radix ds)))"

text \<open>\<open>x || d\<close> on a number: \<open>NaN\<close>, \<open>undefined\<close> and \<open>0\<close> are falsy.\<close>

definition or_num :: "jsnum \<Rightarrow> rat \<Rightarrow> rat" where
  "or_num x d = (case x of Num v \<Rightarrow> if v = 0 then d else v | NaN \<Rightarrow> d | Undefined \<Rightarrow> d)"

definition isNaN :: "jsnum \<Rightarrow> bool" where
  "isNaN x = (case x of Num v \<Rightarrow> False | NaN \<Rightarrow> True | Undefined \<Rightarrow> True)"

definition jsdiv :: "jsnum \<Rightarrow> rat \<Rightarrow> jsnum" where
  "jsdiv x d = (case x of Num v \<Rightarrow> Num (v / d) | NaN \<Rightarrow> NaN | Undefined \<Rightarrow> NaN)"

text \<open>\<open>Math.round\<close> rounds half up.\<close>

definition math_round :: "rat \<Rightarrow> rat" where
  "math_round x = of_int \<lfloor>x + 1 / 2\<rfloor>"

subsection \<open>Regular expressions\<close>

text \<open>
  The regular expressions of the source are written as terms of \<open>re\<close> and run by a
  backtracking matcher with the priorities of JavaScript: alternatives left to right,
  quantifiers greedy, an iteration that consumes nothing rejected. A match state holds the
  character before the position (for \<open>\b\<close> and \<open>^\<close>), the remaining input and the
  captured groups; \<open>ms\<close> lists the states after every way of matching, best first.
\<close>

datatype atom = Ch char | Rng char char | Digit | Space | Word

datatype re =
    Eps
  | Lit string
  | LitI string
  | AnyOf "atom list"
  | NoneOf "atom list"
  | Seq re re
  | Alt re re
  | Star re
  | Plus re
  | Opt re
  | Rep nat nat re
  | Grp nat re
  | Bol
  | Eol
  | WordB

fun in_atom :: "atom \<Rightarrow> char \<Rightarrow> bool" where
  "in_atom (Ch x) c = (c = x)"
| "in_atom (Rng lo hi) c = ((of_char lo :: nat) \<le> of_char c \<and> (of_char c :: nat) \<le> of_char hi)"
| "in_atom Digit c = is_digit c"
| "in_atom Space c = is_space c"
| "in_atom Word c = is_word c"

type_synonym caps = "(nat \<times> string) list"
type_synonym mstate = "char option \<times> string \<times> caps"

fun consume :: "(char \<Rightarrow> bool) \<Rightarrow> mstate \<Rightarrow> mstate list" where
  "consume P (p, [], c) = []"
| "consume P (p, x # s, c) = (if P x then [(Some x, s, c)] else [])"

fun lit :: "(char \<Rightarrow> char) \<Rightarrow> string \<Rightarrow> mstate \<Rightarrow> mstate list" where
  "lit f [] st = [st]"
| "lit f (x # xs) (p, [], c) = []"
| "lit f (x # xs) (p, y # s, c) = (if f y = f x then lit f xs (Some y, s, c) else [])"

primrec iter_exact :: "nat \<Rightarrow> (mstate \<Rightarrow> mstate list) \<Rightarrow> mstate \<Rightarrow> mstate list" where
  "iter_exact 0 f st = [st]"
| "iter_exact (Suc n) f st = concat (map (iter_exact n f) (f st))"

primrec iter_upto :: "nat \<Rightarrow> (mstate \<Rightarrow> mstate list) \<Rightarrow> mstate \<Rightarrow> mstate list" where
  "iter_upto 0 f st = [st]"
| "iter_upto (Suc n) f st = concat (map (iter_upto n f) (f st)) @ [st]"

text \<open>The first argument of \<open>iter_star\<close> is fuel: the input left, one character an iteration.\<close>

primrec iter_star :: "string \<Rightarrow> (mstate \<Rightarrow> mstate list) \<Rightarrow> mstate \<Rightarrow> mstate list" where
  "iter_star [] f st = [st]"
| "iter_star (x # fuel) f st =
     concat (map (\<lambda>st'. if length (fst (snd st')) < length (fst (snd st))
                         then iter_star fuel f st' else [])
                 (f st)) @ [st]"

definition before_word :: "mstate \<Rightarrow> bool" where
  "before_word st = (case fst st of None \<Rightarrow> False | Some c \<Rightarrow> is_word c)"

definition after_word :: "mstate \<Rightarrow> bool" where
  "after_word st = (case fst (snd st) of [] \<Rightarrow> False | c # _ \<Rightarrow> is_word c)"

primrec ms :: "re \<Rightarrow> mstate \<Rightarrow> mstate list" where
  "ms Eps st = [st]"
| "ms (Lit cs) st = lit id cs st"
| "ms (LitI cs) st = lit lower_char cs st"
| "ms (AnyOf as) st = consume (\<lambda>c. list_ex (\<lambda>a. in_atom a c) as) st"
| "ms (NoneOf as) st = consume (\<lambda>c. \<not> list_ex (\<lambda>a. in_atom a c) as) st"
| "ms (Seq x y) st = concat (map (ms y) (ms x st))"
| "ms (Alt x y) st = ms x st @ ms y st"
| "ms (Star x) st = iter_star (fst (snd st)) (ms x) st"
| "ms (Plus x) st = concat (map (\<lambda>st'. iter_star (fst (snd st')) (ms x) st') (ms x st))"
| "ms (Opt x) st = ms x st @ [st]"
| "ms (Rep lo hi x) st = concat (map (iter_upto (hi - lo) (ms x)) (iter_exact lo (ms x) st))"
| "ms (Grp n x) st =
     map (\<lambda>st'. (fst st', fst (snd st'),
                 (n, take (length (fst (snd st)) - length (fst (snd st'))) (fst (snd st)))
                   # snd (snd st')))
         (ms x st)"
| "ms Bol st = (if fst st = None then [st] else [])"
| "ms Eol st = (if fst (snd st) = [] then [st] else [])"
| "ms WordB st = (if before_word st \<noteq> after_word st then [st] else [])"

definition cat :: "re list \<Rightarrow> re" where
  "cat rs = foldr Seq rs Eps"

record rmatch =
  m_index :: nat
  m_text :: string
  m_caps :: caps

text \<open>\<open>s.match(rx)\<close> without the \<open>g\<close> flag: the leftmost match, its text and its groups.\<close>

fun search :: "re \<Rightarrow> char option \<Rightarrow> string \<Rightarrow> nat \<Rightarrow> rmatch option" where
  "search rx p s i =
     (case ms rx (p, s, []) of
        (p', s', c) # _ \<Rightarrow>
          Some \<lparr>m_index = i, m_text = take (length s - length s') s, m_caps = c\<rparr>
      | [] \<Rightarrow> (case s of [] \<Rightarrow> None | x # xs \<Rightarrow> search rx (Some x) xs (Suc i)))"

definition re_match :: "re \<Rightarrow> string \<Rightarrow> rmatch option" where
  "re_match rx s = search rx None s 0"

text \<open>\<open>m[n]\<close>: the text of group \<open>n\<close>, \<open>None\<close> for \<open>undefined\<close>.\<close>

definition grp :: "rmatch \<Rightarrow> nat \<Rightarrow> string option" where
  "grp m n = map_of (m_caps m) n"

text \<open>\<open>s.match(rx)\<close> with the \<open>g\<close> flag: the texts of all matches, left to right.\<close>

fun scan_all :: "re \<Rightarrow> char option \<Rightarrow> string \<Rightarrow> nat \<Rightarrow> string list" where
  "scan_all rx p [] k =
     (if k > 0 then []
      else (case ms rx (p, [], []) of [] \<Rightarrow> [] | st # _ \<Rightarrow> [[]]))"
| "scan_all rx p (x # xs) k =
     (if k > 0 then scan_all rx (Some x) xs (k - 1)
      else (case ms rx (p, x # xs, []) of
              [] \<Rightarrow> scan_all rx (Some x) xs 0
            | (p', s', c) # _ \<Rightarrow>
                take (length (x # xs) - length s') (x # xs)
                  # scan_all rx (Some x) xs (length (x # xs) - length s' - 1)))"

definition re_match_all :: "re \<Rightarrow> string \<Rightarrow> string list" where
  "re_match_all rx s = scan_all rx None s 0"

text \<open>\<open>s.replace(rx, u)\<close> without the \<open>g\<close> flag replaces the leftmost match.\<close>

definition re_replace :: "re \<Rightarrow> string \<Rightarrow> string \<Rightarrow> string" where
  "re_replace rx s u =
     (case re_match rx s of
        None \<Rightarrow> s
      | Some m \<Rightarrow> take (m_index m) s @ u @ drop (m_index m + length (m_text m)) s)"

section \<open>color-utils.ts\<close>

record RGBA =
  rgba_r :: jsnum
  rgba_g :: jsnum
  rgba_b :: jsnum
  rgba_a :: jsnum

definition rgba :: "rat \<Rightarrow> rat \<Rightarrow> rat \<Rightarrow> rat \<Rightarrow> RGBA" where
  "rgba r g b a = \<lparr>rgba_r = Num r, rgba_g = Num g, rgba_b = Num b, rgba_a = Num a\<rparr>"

text \<open>The operator \<open>%\<close> on numbers: the remainder has the sign of the dividend.\<close>

definition js_rem :: "rat \<Rightarrow> rat \<Rightarrow> rat" where
  "js_rem x y = x - y * of_int (if x / y \<ge> 0 then \<lfloor>x / y\<rfloor> else \<lceil>x / y\<rceil>)"

definition hslToRgb :: "rat \<Rightarrow> rat \<Rightarrow> rat \<Rightarrow> rat \<times> rat \<times> rat" where
  "hslToRgb h s0 l0 =
     (let s = s0 / 100;
          l = l0 / 100;
          c = (1 - \<bar>2 * l - 1\<bar>) * s;
          x = c * (1 - \<bar>js_rem (h / 60) 2 - 1\<bar>);
          m = l - c / 2;
          (r, g, b) =
            (if h < 60 then (c, x, 0)
             else if h < 120 then (x, c, 0)
             else if h < 180 then (0, c, x)
             else if h < 240 then (0, x, c)
             else if h < 300 then (x, 0, c)
             else (c, 0, x))
      in (r + m, g + m, b + m))"

definition namedColors :: "(string \<times> RGBA) list" where
  "namedColors =
     [(''white'', rgba 1 1 1 1),
      (''black'', rgba 0 0 0 1),
      (''red'', rgba 1 0 0 1),
      (''green'', rgba 0 (502 / 1000) 0 1),
      (''blue'', rgba 0 0 1 1),
      (''gray'', rgba (502 / 1000) (502 / 1000) (502 / 1000) 1),
      (''grey'', rgba (502 / 1000) (502 / 1000) (502 / 1000) 1),
      (''yellow'', rgba 1 1 0 1),
      (''orange'', rgba 1 (647 / 1000) 0 1),
      (''purple'', rgba (502 / 1000) 0 (502 / 1000) 1),
      (''pink'', rgba 1 (753 / 1000) (796 / 1000) 1),
      (''cyan'', rgba 0 1 1 1),
      (''magenta'', rgba 1 0 1 1),
      (''brown'', rgba (647 / 1000) (165 / 1000) (165 / 1000) 1),
      (''navy'', rgba 0 0 (502 / 1000) 1),
      (''teal'', rgba 0 (502 / 1000) (502 / 1000) 1),
      (''silver'', rgba (753 / 1000) (753 / 1000) (753 / 1000) 1),
      (''maroon'', rgba (502 / 1000) 0 0 1),
      (''olive'', rgba (502 / 1000) (502 / 1000) 0 1),
      (''lime'', rgba 0 1 0 1),
      (''aqua'', rgba 0 1 1 1),
      (''fuchsia'', rgba 1 0 1 1),
      (''transparent'', rgba 0 0 0 0)]"

text \<open>
  \<open>key in namedColors\<close> also holds for the properties the table inherits from
  \<open>Object.prototype\<close>; after \<open>toLowerCase\<close> only two of them can be asked for. What the
  table yields there is an object none of whose four channels is defined.
\<close>

definition inherited_keys :: "string list" where
  "inherited_keys = [''constructor'', ''__proto__'']"

definition namedColors_get :: "string \<Rightarrow> RGBA option" where
  "namedColors_get k =
     (case map_of namedColors k of
        Some c \<Rightarrow> Some c
      | None \<Rightarrow>
          if k \<in> set inherited_keys
          then Some \<lparr>rgba_r = Undefined, rgba_g = Undefined, rgba_b = Undefined, rgba_a = Undefined\<rparr>
          else None)"

definition clamp01 :: "jsnum \<Rightarrow> jsnum" where
  "clamp01 v = (case v of Num x \<Rightarrow> Num (max 0 (min 1 x)) | NaN \<Rightarrow> NaN | Undefined \<Rightarrow> NaN)"

definition digit_re :: re where
  "digit_re = AnyOf [Digit]"

definition ws0 :: re where
  "ws0 = Star (AnyOf [Space])"

definition ws1 :: re where
  "ws1 = Plus (AnyOf [Space])"

text \<open>\<open>(\d+(?:\.\d+)?)\<close> as group \<open>n\<close>.\<close>

definition num_re :: "nat \<Rightarrow> re" where
  "num_re n = Grp n (Seq (Plus digit_re) (Opt (Seq (Lit ''.'') (Plus digit_re))))"

definition rgbaComma_re :: re where
  "rgbaComma_re =
     cat [Lit ''rgb'', Opt (Lit ''a''), Lit ''('', ws0, num_re 1, ws0, Lit '','', ws0, num_re 2, ws0,
          Lit '','', ws0, num_re 3, ws0,
          Opt (cat [Lit '','', ws0, num_re 4, Grp 5 (Opt (Lit ''%''))]), ws0, Lit '')'']"

definition rgbaSpace_re :: re where
  "rgbaSpace_re =
     cat [Lit ''rgb'', Opt (Lit ''a''), Lit ''('', ws0, num_re 1, ws1, num_re 2, ws1, num_re 3, ws0,
          Opt (cat [Lit ''/'', ws0, num_re 4, Grp 5 (Opt (Lit ''%''))]), ws0, Lit '')'']"

definition hsl_re :: re where
  "hsl_re =
     cat [Lit ''hsl'', Opt (Lit ''a''), Lit ''('', Grp 1 (Plus digit_re), Lit '','', ws0,
          Grp 2 (Plus digit_re), Lit ''%,'', ws0, Grp 3 (Plus digit_re), Lit ''%'',
          Opt (cat [Lit '','', ws0, Grp 4 (Plus (AnyOf [Digit, Ch (CHR ''.'')]))]), Lit '')'']"

definition hexdigit_re :: re where
  "hexdigit_re = AnyOf [Rng (CHR ''a'') (CHR ''f''), Rng (CHR ''A'') (CHR ''F''), Rng (CHR ''0'') (CHR ''9'')]"

definition hex_re :: re where
  "hex_re = cat [Bol, Lit ''#'', Grp 1 (Rep 3 8 hexdigit_re), Eol]"

text \<open>The text of a group passed on as a string; an unset group reads as no number.\<close>

definition grp_str :: "rmatch \<Rightarrow> nat \<Rightarrow> string" where
  "grp_str m n = (case grp m n of Some t \<Rightarrow> t | None \<Rightarrow> [])"

definition parseHexColor :: "string \<Rightarrow> RGBA" where
  "parseHexColor hex =
     (if length hex = 3 then
        \<lparr>rgba_r = jsdiv (parseInt [hex ! 0, hex ! 0] 16) 255,
         rgba_g = jsdiv (parseInt [hex ! 1, hex ! 1] 16) 255,
         rgba_b = jsdiv (parseInt [hex ! 2, hex ! 2] 16) 255,
         rgba_a = Num 1\<rparr>
      else if length hex = 4 then
        \<lparr>rgba_r = jsdiv (parseInt [hex ! 0, hex ! 0] 16) 255,
         rgba_g = jsdiv (parseInt [hex ! 1, hex ! 1] 16) 255,
         rgba_b = jsdiv (parseInt [hex ! 2, hex ! 2] 16) 255,
         rgba_a = jsdiv (parseInt [hex ! 3, hex ! 3] 16) 255\<rparr>
      else if length hex = 6 then
        \<lparr>rgba_r = jsdiv (parseInt (substring hex 0 2) 16) 255,
         rgba_g = jsdiv (parseInt (substring hex 2 4) 16) 255,
         rgba_b = jsdiv (parseInt (substring hex 4 6) 16) 255,
         rgba_a = Num 1\<rparr>
      else if length hex = 8 then
        \<lparr>rgba_r = jsdiv (parseInt (substring hex 0 2) 16) 255,
         rgba_g = jsdiv (parseInt (substring hex 2 4) 16) 255,
         rgba_b = jsdiv (parseInt (substring hex 4 6) 16) 255,
         rgba_a = jsdiv (parseInt (substring hex 6 8) 16) 255\<rparr>
      else rgba 0 0 0 1)"

text \<open>The result of either \<open>rgb()\<close> branch, from the groups of its match.\<close>

definition rgb_of_match :: "rmatch \<Rightarrow> RGBA" where
  "rgb_of_match m =
     (let alpha =
            (case grp m 4 of
               None \<Rightarrow> Num 1
             | Some t \<Rightarrow> if grp m 5 = Some ''%'' then jsdiv (parseFloat t) 100 else parseFloat t)
      in \<lparr>rgba_r = clamp01 (jsdiv (parseFloat (grp_str m 1)) 255),
          rgba_g = clamp01 (jsdiv (parseFloat (grp_str m 2)) 255),
          rgba_b = clamp01 (jsdiv (parseFloat (grp_str m 3)) 255),
          rgba_a = clamp01 alpha\<rparr>)"

text \<open>
  The \<open>hsl()\<close> branch. Groups 1 to 3 are digit strings, so they parse to numbers; group 4
  is \<open>[\d.]+\<close> and is passed to \<open>parseFloat\<close> unclamped.
\<close>

definition hsl_of_match :: "rmatch \<Rightarrow> RGBA" where
  "hsl_of_match m =
     (let alpha = (case grp m 4 of None \<Rightarrow> Num 1 | Some t \<Rightarrow> parseFloat t)
      in case (parseFloat (grp_str m 1), parseFloat (grp_str m 2), parseFloat (grp_str m 3)) of
           (Num h, Num s, Num l) \<Rightarrow>
             (case hslToRgb h s l of
                (r, g, b) \<Rightarrow> \<lparr>rgba_r = Num r, rgba_g = Num g, rgba_b = Num b, rgba_a = alpha\<rparr>)
         | _ \<Rightarrow> \<lparr>rgba_r = NaN, rgba_g = NaN, rgba_b = NaN, rgba_a = alpha\<rparr>)"

definition is_context_keyword :: "string \<Rightarrow> bool" where
  "is_context_keyword cssColor \<longleftrightarrow>
     cssColor = ''currentColor'' \<or> cssColor = ''inherit'' \<or> cssColor = ''initial'' \<or> cssColor = ''unset''"

definition parseColor :: "string \<Rightarrow> RGBA option \<Rightarrow> RGBA" where
  "parseColor cssColor fallbackColor =
     (if is_context_keyword cssColor then
        (case fallbackColor of Some c \<Rightarrow> c | None \<Rightarrow> rgba 0 0 0 1)
      else if cssColor = ''transparent'' \<or> cssColor = ''rgba(0, 0, 0, 0)'' then rgba 0 0 0 0
      else
        (case re_match rgbaComma_re cssColor of
           Some m \<Rightarrow> rgb_of_match m
         | None \<Rightarrow>
        (case re_match rgbaSpace_re cssColor of
           Some m \<Rightarrow> rgb_of_match m
         | None \<Rightarrow>
        (case re_match hsl_re cssColor of
           Some m \<Rightarrow> hsl_of_match m
         | None \<Rightarrow>
        (case re_match hex_re cssColor of
           Some m \<Rightarrow> parseHexColor (grp_str m 1)
         | None \<Rightarrow>
        (case namedColors_get (toLowerCase cssColor) of
           Some c \<Rightarrow> c
         | None \<Rightarrow> rgba 0 0 0 1))))))"

subsection \<open>Gradients\<close>

text \<open>
  The loop of \<open>extractBalancedParens\<close>: \<open>paren_scan cs depth i\<close> runs over the
  characters \<open>cs\<close> from index \<open>i\<close> on and gives the index where the loop stops.
\<close>

fun paren_scan :: "string \<Rightarrow> int \<Rightarrow> nat \<Rightarrow> nat" where
  "paren_scan [] depth i = i"
| "paren_scan (c # cs) depth i =
     (if depth > 0 then
        paren_scan cs
          (if c = CHR ''('' then depth + 1 else if c = CHR '')'' then depth - 1 else depth)
          (i + 1)
      else i)"

definition extractBalancedParens :: "string \<Rightarrow> nat \<Rightarrow> string" where
  "extractBalancedParens str startIndex =
     substring str startIndex (paren_scan (drop startIndex str) 1 startIndex - 1)"

definition deg_re :: re where
  "deg_re = cat [Grp 1 (Plus digit_re), Lit ''deg'']"

definition parseGradientAngle :: "string \<Rightarrow> jsnum" where
  "parseGradientAngle content =
     (case re_match deg_re content of
        Some m \<Rightarrow> parseInt (grp_str m 1) 10
      | None \<Rightarrow>
          if str_includes content ''to right'' then Num 90
          else if str_includes content ''to left'' then Num 270
          else if str_includes content ''to bottom'' then Num 180
          else if str_includes content ''to top'' then Num 0
          else Num 180)"

definition color_func_re :: re where
  "color_func_re =
     cat [Bol, Grp 1 (Alt (Seq (Lit ''rgb'') (Opt (Lit ''a''))) (Seq (Lit ''hsl'') (Opt (Lit ''a'')))),
          Lit ''('']"

definition color_token_re :: re where
  "color_token_re =
     cat [Bol, Grp 1 (Alt (Seq (Lit ''#'')
                              (Plus (AnyOf [Rng (CHR ''a'') (CHR ''f''), Rng (CHR ''A'') (CHR ''F''),
                                            Rng (CHR ''0'') (CHR ''9'')])))
                         (Plus (AnyOf [Word])))]"

definition extractColorValue :: "string \<Rightarrow> nat \<Rightarrow> string" where
  "extractColorValue str startPos =
     (let i = startPos + length (takeWhile is_space (drop startPos str))
      in case re_match color_func_re (drop i str) of
           Some funcMatch \<Rightarrow>
             (let funcStart = i + length (m_text funcMatch);
                  j = paren_scan (drop funcStart str) 1 funcStart
              in substring str i j)
         | None \<Rightarrow>
             (case re_match color_token_re (drop i str) of
                Some m \<Rightarrow> grp_str m 1
              | None \<Rightarrow> []))"

text \<open>
  A stop as the loop pushes it: the position (\<open>-1\<close> when none was written), the colour
  and the mark \<open>_autoGenerated\<close> that the post-pass reads and deletes.
\<close>

record GradientStop =
  gs_position :: jsnum
  gs_color :: RGBA
  gs_autoGenerated :: bool

definition direction_re :: re where
  "direction_re = cat [Bol, Plus (NoneOf [Ch (CHR '','')]), Lit '','', ws0]"

definition stop_position_re :: re where
  "stop_position_re =
     cat [Bol, Grp 1 (cat [Plus digit_re, Opt (Seq (Lit ''.'') (Plus digit_re)), Opt (Lit ''%'')])]"

text \<open>The \<open>while\<close> loop of \<open>parseGradientStops\<close> over the index \<open>i\<close> into \<open>colorPart\<close>.\<close>

function stops_loop :: "string \<Rightarrow> nat \<Rightarrow> GradientStop list \<Rightarrow> GradientStop list" where
  "stops_loop colorPart i stops =
     (if i < length colorPart then
        (let i1 = i + length (takeWhile (\<lambda>c. is_space c \<or> c = CHR '','') (drop i colorPart))
         in if i1 \<ge> length colorPart then stops
            else
              (let colorValue = extractColorValue colorPart i1
               in if colorValue = [] then stops
                  else
                    (let i2 = i1 + length colorValue;
                         i3 = i2 + length (takeWhile is_space (drop i2 colorPart));
                         posMatch = re_match stop_position_re (drop i3 colorPart);
                         position =
                           (case posMatch of
                              None \<Rightarrow> None
                            | Some m \<Rightarrow>
                                Some (if endsWith (grp_str m 1) ''%''
                                      then jsdiv (parseFloat (grp_str m 1)) 100
                                      else parseFloat (grp_str m 1)));
                         i4 = (case posMatch of None \<Rightarrow> i3 | Some m \<Rightarrow> i3 + length (m_text m));
                         color = parseColor colorValue None
                     in stops_loop colorPart i4
                          (stops @
                           [\<lparr>gs_position = (case position of None \<Rightarrow> Num (-1) | Some v \<Rightarrow> v),
                             gs_color = color,
                             gs_autoGenerated = (position = None)\<rparr>]))))
      else stops)"
  by pat_completeness auto
termination
proof (relation "measure (\<lambda>(colorPart, i, stops). length colorPart - i)", goal_cases)
  case 1
  show ?case by simp
next
  case (2 colorPart i stops i1 colorValue i2 i3 posMatch position i4 color)
  from \<open>colorValue \<noteq> []\<close> obtain n where "length colorValue = Suc n"
    by (cases colorValue) auto
  with 2 show ?case
    by (auto split: option.splits)
qed

text \<open>The post-pass: only with more than one stop, and only over the marked stops.\<close>

definition normalize_stops :: "GradientStop list \<Rightarrow> GradientStop list" where
  "normalize_stops stops =
     (if length stops > 1 \<and> filter gs_autoGenerated stops \<noteq> [] then
        map (\<lambda>(idx, stop).
               if gs_autoGenerated stop
               then stop\<lparr>gs_position := Num (of_nat idx / of_nat (length stops - 1)),
                         gs_autoGenerated := False\<rparr>
               else stop)
            (enumerate 0 stops)
      else stops)"

definition parseGradientStops :: "string \<Rightarrow> GradientStop list" where
  "parseGradientStops content =
     (let colorPart = re_replace direction_re content [] in
      normalize_stops (stops_loop colorPart 0 []))"

datatype gradient_type = linear | radial

record gradient =
  g_type :: gradient_type
  g_stops :: "GradientStop list"
  g_angle :: "jsnum option"

definition parseGradient :: "string \<Rightarrow> gradient option" where
  "parseGradient cssGradient =
     (case indexOf cssGradient ''linear-gradient('' of
        Some linearStart \<Rightarrow>
          (let content = extractBalancedParens cssGradient (linearStart + 16)
           in Some \<lparr>g_type = linear, g_stops = parseGradientStops content,
                    g_angle = Some (parseGradientAngle content)\<rparr>)
      | None \<Rightarrow>
          (case indexOf cssGradient ''radial-gradient('' of
             Some radialStart \<Rightarrow>
               (let content = extractBalancedParens cssGradient (radialStart + 16)
                in Some \<lparr>g_type = radial, g_stops = parseGradientStops content, g_angle = None\<rparr>)
           | None \<Rightarrow> None))"

subsection \<open>Transparency tests\<close>

definition isTransparent :: "RGBA \<Rightarrow> bool" where
  "isTransparent color = (case rgba_a color of Num v \<Rightarrow> v \<le> 0 | NaN \<Rightarrow> False | Undefined \<Rightarrow> False)"

definition zero_alpha_re :: re where
  "zero_alpha_re =
     Grp 1 (Alt (Lit ''0'')
             (Alt (cat [Opt (Lit ''0''), Lit ''.'', Plus (Lit ''0'')]) (Lit ''0%'')))"

definition numdot_re :: re where
  "numdot_re = Plus (AnyOf [Digit, Ch (CHR ''.'')])"

definition sep_re :: re where
  "sep_re = Plus (AnyOf [Ch (CHR '',''), Space, Ch (CHR ''/'')])"

definition transparent_rgba_re :: re where
  "transparent_rgba_re =
     cat [Lit ''rgb'', Opt (Lit ''a''), Lit ''('', numdot_re, sep_re, numdot_re, sep_re, numdot_re, sep_re,
          zero_alpha_re, Lit '')'']"

definition transparent_slash_re :: re where
  "transparent_slash_re =
     cat [Lit ''rgb'', Opt (Lit ''a''), Lit ''('', Plus (NoneOf [Ch (CHR '')'')]), Lit ''/'', ws0,
          zero_alpha_re, Lit '')'']"

text \<open>\<open>replace(/\s+/g, '')\<close> deletes every white-space character.\<close>

definition isTransparentColorString :: "string \<Rightarrow> bool" where
  "isTransparentColorString cssColor =
     (if cssColor = [] then True
      else
        (let normalized = filter (\<lambda>c. \<not> is_space c) (toLowerCase cssColor)
         in if normalized = ''transparent'' then True
            else if re_match transparent_rgba_re normalized \<noteq> None then True
            else if re_match transparent_slash_re normalized \<noteq> None then True
            else if normalized = ''rgba(0,0,0,0)'' then True
            else if startsWith normalized ''rgba('' \<and> endsWith normalized '',0)'' then True
            else False))"

section \<open>style-parser.ts\<close>

text \<open>
  A computed-style snapshot (\<open>CSSStyleDeclaration\<close>) is read property by property; it is
  a function from the property name to its text, the empty string for an unset property.
\<close>

type_synonym css = "string \<Rightarrow> string"

datatype scale_mode = FILL | FIT | CROP | TILE

text \<open>
  The paints, by their \<open>type\<close> tag. The last two fields are \<open>opacity\<close> and
  \<open>visible\<close>; a gradient carries its stops and its angle (absent for a radial one).
\<close>

datatype Paint =
    SOLID RGBA rat bool
  | GRADIENT_LINEAR "GradientStop list" "jsnum option" rat bool
  | GRADIENT_RADIAL "GradientStop list" "jsnum option" rat bool
  | IMAGE string scale_mode rat bool

fun is_solid :: "Paint \<Rightarrow> bool" where
  "is_solid (SOLID c opa vis) = True"
| "is_solid (GRADIENT_LINEAR stops ang opa vis) = False"
| "is_solid (GRADIENT_RADIAL stops ang opa vis) = False"
| "is_solid (IMAGE url sm opa vis) = False"

fun is_image_or_gradient :: "Paint \<Rightarrow> bool" where
  "is_image_or_gradient (SOLID c opa vis) = False"
| "is_image_or_gradient (GRADIENT_LINEAR stops ang opa vis) = True"
| "is_image_or_gradient (GRADIENT_RADIAL stops ang opa vis) = True"
| "is_image_or_gradient (IMAGE url sm opa vis) = True"

text \<open>
  The loop of \<open>splitBackgroundImages\<close> over the characters, with its three variables.
  The depth is updated before the comma test, as in the source.
\<close>

fun split_images_loop :: "string \<Rightarrow> string list \<Rightarrow> string \<Rightarrow> int \<Rightarrow> string list" where
  "split_images_loop [] images current parenDepth =
     (if trim current \<noteq> [] then images @ [trim current] else images)"
| "split_images_loop (c # cs) images current parenDepth =
     (let d = (if c = CHR ''('' then parenDepth + 1
               else if c = CHR '')'' then parenDepth - 1 else parenDepth)
      in if c = CHR '','' \<and> d = 0
         then split_images_loop cs
                (if trim current \<noteq> [] then images @ [trim current] else images) [] d
         else split_images_loop cs images (current @ [c]) d)"

definition splitBackgroundImages :: "string \<Rightarrow> string list" where
  "splitBackgroundImages bgImage = split_images_loop bgImage [] [] 0"

definition url_re :: re where
  "url_re =
     cat [Lit ''url('', Opt (AnyOf [Ch (CHR 0x27), Ch (CHR 0x22)]),
          Grp 1 (Plus (NoneOf [Ch (CHR 0x27), Ch (CHR 0x22), Ch (CHR '')''), Space])),
          Opt (AnyOf [Ch (CHR 0x27), Ch (CHR 0x22)]), Lit '')'']"

text \<open>
  One entry of \<open>background-image\<close>: the paint it adds, if any. \<open>resolve\<close> stands for
  \<open>new URL(url, document.baseURI).href\<close>, which the browser supplies; a \<open>data:\<close> URL is
  kept as it is.
\<close>

definition background_layer :: "(string \<Rightarrow> string) \<Rightarrow> css \<Rightarrow> string \<Rightarrow> Paint option" where
  "background_layer resolve styles singleBg =
     (let trimmedBg = trim singleBg
      in if str_includes trimmedBg ''url('' then
           (case re_match url_re trimmedBg of
              None \<Rightarrow> None
            | Some urlMatch \<Rightarrow>
                if grp_str urlMatch 1 = [] then None
                else
                  (let url = grp_str urlMatch 1;
                       imageUrl = (if startsWith url ''data:'' then url else resolve url);
                       bgSize = styles ''backgroundSize'';
                       scaleMode = (if bgSize = ''contain'' then FIT
                                    else if bgSize = ''cover'' then FILL else FILL)
                   in Some (IMAGE imageUrl scaleMode 1 True)))
         else
           (case parseGradient trimmedBg of
              None \<Rightarrow> None
            | Some gradient \<Rightarrow>
                Some (if g_type gradient = linear
                      then GRADIENT_LINEAR (g_stops gradient) (g_angle gradient) 1 True
                      else GRADIENT_RADIAL (g_stops gradient) (g_angle gradient) 1 True)))"

definition parseBackground :: "(string \<Rightarrow> string) \<Rightarrow> css \<Rightarrow> Paint list" where
  "parseBackground resolve styles =
     (let textColor = parseColor (styles ''color'') None;
          bgImage = styles ''backgroundImage'';
          fills =
            (if bgImage \<noteq> [] \<and> bgImage \<noteq> ''none''
             then List.map_filter (background_layer resolve styles) (splitBackgroundImages bgImage)
             else []);
          bgColor = styles ''backgroundColor''
      in if bgColor \<noteq> [] \<and> \<not> isTransparentColorString bgColor then
           (let color = parseColor bgColor (Some textColor)
            in if \<not> isTransparent color then fills @ [SOLID color 1 True] else fills)
         else fills)"

datatype stroke_position = INSIDE | OUTSIDE | STROKE_CENTER

record StrokeConfig =
  stroke_color :: RGBA
  stroke_weight :: rat
  stroke_position :: stroke_position
  dashPattern :: "rat list option"
  individualWeights :: "(rat \<times> rat \<times> rat \<times> rat) option"

text \<open>\<open>a || b || c || d\<close> on strings: the first non-empty one, else the last.\<close>

definition first_nonempty :: "string list \<Rightarrow> string" where
  "first_nonempty xs = (case filter (\<lambda>x. x \<noteq> []) xs of [] \<Rightarrow> [] | x # _ \<Rightarrow> x)"

definition parseBorder :: "css \<Rightarrow> StrokeConfig option" where
  "parseBorder styles =
     (let textColor = parseColor (styles ''color'') None;
          topWidth = or_num (parseFloat (styles ''borderTopWidth'')) 0;
          rightWidth = or_num (parseFloat (styles ''borderRightWidth'')) 0;
          bottomWidth = or_num (parseFloat (styles ''borderBottomWidth'')) 0;
          leftWidth = or_num (parseFloat (styles ''borderLeftWidth'')) 0;
          maxWidth = max (max topWidth rightWidth) (max bottomWidth leftWidth)
      in if maxWidth > 0 then
           (let colorStr = first_nonempty [styles ''borderTopColor'', styles ''borderRightColor'',
                                           styles ''borderBottomColor'', styles ''borderLeftColor''];
                borderStyle = first_nonempty [styles ''borderTopStyle'', styles ''borderRightStyle'',
                                              styles ''borderBottomStyle'', styles ''borderLeftStyle'']
            in if colorStr \<noteq> [] \<and> borderStyle \<noteq> ''none'' then
                 (let color = parseColor colorStr (Some textColor)
                  in if \<not> isTransparent color then
                       (let allSame = (topWidth = rightWidth \<and> rightWidth = bottomWidth
                                        \<and> bottomWidth = leftWidth)
                        in Some \<lparr>stroke_color = color, stroke_weight = maxWidth,
                                 stroke_position = INSIDE,
                                 dashPattern = (if borderStyle = ''dashed''
                                                then Some [maxWidth * 2, maxWidth] else None),
                                 individualWeights =
                                   (if allSame then None
                                    else Some (topWidth, rightWidth, bottomWidth, leftWidth))\<rparr>)
                     else None)
               else None)
         else None)"

subsection \<open>Shadows and filters\<close>

datatype shadow_type = DROP_SHADOW | INNER_SHADOW

datatype blur_type = LAYER_BLUR | BACKGROUND_BLUR

record ShadowEffect =
  sh_type :: shadow_type
  sh_color :: RGBA
  sh_offset_x :: rat
  sh_offset_y :: rat
  sh_radius :: rat
  sh_spread :: rat
  sh_visible :: bool

datatype Effect = Shadow ShadowEffect | Blur blur_type jsnum bool

text \<open>The loop of \<open>splitShadows\<close>; unlike the one above it also keeps an empty entry at a comma.\<close>

fun split_shadows_loop :: "string \<Rightarrow> string list \<Rightarrow> string \<Rightarrow> int \<Rightarrow> string list" where
  "split_shadows_loop [] shadows current parenDepth =
     (if trim current \<noteq> [] then shadows @ [trim current] else shadows)"
| "split_shadows_loop (c # cs) shadows current parenDepth =
     (let d = (if c = CHR ''('' then parenDepth + 1
               else if c = CHR '')'' then parenDepth - 1 else parenDepth)
      in if c = CHR '','' \<and> d = 0
         then split_shadows_loop cs (shadows @ [trim current]) [] d
         else split_shadows_loop cs shadows (current @ [c]) d)"

definition splitShadows :: "string \<Rightarrow> string list" where
  "splitShadows boxShadow = split_shadows_loop boxShadow [] [] 0"

definition shadow_rgba_re :: re where
  "shadow_rgba_re =
     cat [Lit ''rgb'', Opt (Lit ''a''), ws0, Lit ''('', Plus (NoneOf [Ch (CHR '')'')]), Lit '')'']"

definition shadow_hex_re :: re where
  "shadow_hex_re = cat [Lit ''#'', Rep 3 8 hexdigit_re]"

definition shadow_named_re :: re where
  "shadow_named_re =
     cat [WordB,
          Grp 1 (Alt (LitI ''transparent'') (Alt (LitI ''white'') (Alt (LitI ''black'')
                (Alt (LitI ''red'') (Alt (LitI ''green'') (Alt (LitI ''blue'')
                (Alt (LitI ''gray'') (LitI ''grey'')))))))),
          WordB]"

definition shadow_number_re :: re where
  "shadow_number_re =
     cat [Opt (Lit ''-''), Plus digit_re, Opt (Seq (Lit ''.'') (Plus digit_re)), Opt (Lit ''px'')]"

text \<open>
  The colour token of one shadow: the first \<open>rgb()/rgba()\<close> token, else the first hex
  token, else the first of eight colour names; the token is removed from the text. Without
  a token the colour is black at alpha 0.25.
\<close>

definition extract_shadow_color :: "string \<Rightarrow> RGBA \<times> string" where
  "extract_shadow_color cleanShadow =
     (case re_match shadow_rgba_re cleanShadow of
        Some rgbaMatch \<Rightarrow>
          (parseColor (m_text rgbaMatch) None, trim (replace_str cleanShadow (m_text rgbaMatch) []))
      | None \<Rightarrow>
          (case re_match shadow_hex_re cleanShadow of
             Some hexMatch \<Rightarrow>
               (parseColor (m_text hexMatch) None, trim (replace_str cleanShadow (m_text hexMatch) []))
           | None \<Rightarrow>
               (case re_match shadow_named_re cleanShadow of
                  Some namedMatch \<Rightarrow>
                    (parseColor (m_text namedMatch) None,
                     trim (replace_str cleanShadow (m_text namedMatch) []))
                | None \<Rightarrow> (rgba 0 0 0 (1 / 4), cleanShadow))))"

definition shadow_numbers :: "string \<Rightarrow> jsnum list" where
  "shadow_numbers cleanShadow = map parseFloat (re_match_all shadow_number_re cleanShadow)"

text \<open>\<open>numbers[k] || 0\<close>: an index past the end reads \<open>undefined\<close>.\<close>

definition nth_or_zero :: "jsnum list \<Rightarrow> nat \<Rightarrow> rat" where
  "nth_or_zero numbers k = (if k < length numbers then or_num (numbers ! k) 0 else 0)"

definition parseSingleShadow :: "string \<Rightarrow> ShadowEffect option" where
  "parseSingleShadow shadowStr =
     (let isInset = str_includes shadowStr ''inset'';
          (color, cleanShadow) = extract_shadow_color (trim (replace_str shadowStr ''inset'' []));
          numbers = shadow_numbers cleanShadow
      in if length numbers < 2 then None
         else Some \<lparr>sh_type = (if isInset then INNER_SHADOW else DROP_SHADOW),
                    sh_color = color,
                    sh_offset_x = nth_or_zero numbers 0,
                    sh_offset_y = nth_or_zero numbers 1,
                    sh_radius = nth_or_zero numbers 2,
                    sh_spread = nth_or_zero numbers 3,
                    sh_visible = True\<rparr>)"

definition parseBoxShadow :: "css \<Rightarrow> Effect list" where
  "parseBoxShadow styles =
     (let boxShadow = styles ''boxShadow''
      in if boxShadow = [] \<or> boxShadow = ''none'' then []
         else map Shadow (List.map_filter parseSingleShadow (splitShadows boxShadow)))"

definition parseSingleTextShadow :: "string \<Rightarrow> ShadowEffect option" where
  "parseSingleTextShadow shadowStr =
     (let (color, cleanShadow) = extract_shadow_color (trim shadowStr);
          numbers = shadow_numbers cleanShadow
      in if length numbers < 2 then None
         else Some \<lparr>sh_type = DROP_SHADOW,
                    sh_color = color,
                    sh_offset_x = nth_or_zero numbers 0,
                    sh_offset_y = nth_or_zero numbers 1,
                    sh_radius = nth_or_zero numbers 2,
                    sh_spread = 0,
                    sh_visible = True\<rparr>)"

definition parseTextShadow :: "css \<Rightarrow> Effect list" where
  "parseTextShadow styles =
     (let textShadow = styles ''textShadow''
      in if textShadow = [] \<or> textShadow = ''none'' then []
         else map Shadow (List.map_filter parseSingleTextShadow (splitShadows textShadow)))"

definition blur_re :: re where
  "blur_re = cat [Lit ''blur('', num_re 1, Grp 2 (Opt (Lit ''px'')), Lit '')'']"

definition drop_shadow_re :: re where
  "drop_shadow_re = cat [Lit ''drop-shadow('', Grp 1 (Plus (NoneOf [Ch (CHR '')'')])), Lit '')'']"

definition filter_rgba_re :: re where
  "filter_rgba_re = cat [Lit ''rgb'', Opt (Lit ''a''), Lit ''('', Plus (NoneOf [Ch (CHR '')'')]), Lit '')'']"

definition letters_re :: re where
  "letters_re = cat [Bol, Plus (AnyOf [Rng (CHR ''a'') (CHR ''z''), Rng (CHR ''A'') (CHR ''Z'')]), Eol]"

text \<open>
  \<open>s.split(/\s+/)\<close>: the pieces between the runs of white space, an empty piece before a
  leading run and after a trailing one. The flag says that the last character was white
  space.
\<close>

fun split_ws_loop :: "string \<Rightarrow> string \<Rightarrow> bool \<Rightarrow> string list" where
  "split_ws_loop [] current in_space = [current]"
| "split_ws_loop (c # cs) current in_space =
     (if is_space c then
        (if in_space then split_ws_loop cs current True
         else current # split_ws_loop cs [] True)
      else split_ws_loop cs (current @ [c]) False)"

definition split_ws :: "string \<Rightarrow> string list" where
  "split_ws s = split_ws_loop s [] False"

text \<open>The loop of \<open>parseFilters\<close> over the parts of a \<open>drop-shadow()\<close>.\<close>

fun filter_parts_loop :: "string list \<Rightarrow> jsnum list \<Rightarrow> string \<Rightarrow> jsnum list \<times> string" where
  "filter_parts_loop [] numbers colorStr = (numbers, colorStr)"
| "filter_parts_loop (part # parts) numbers colorStr =
     (if \<not> isNaN (parseFloat part) then filter_parts_loop parts (numbers @ [parseFloat part]) colorStr
      else if startsWith part ''rgb'' \<or> startsWith part ''#'' \<or> re_match letters_re part \<noteq> None
      then filter_parts_loop parts numbers (colorStr @ part)
      else filter_parts_loop parts numbers colorStr)"

definition filter_drop_shadow :: "string \<Rightarrow> Effect list" where
  "filter_drop_shadow filterStr =
     (case re_match drop_shadow_re filterStr of
        None \<Rightarrow> []
      | Some dropShadowMatch \<Rightarrow>
          (let shadowStr = trim (grp_str dropShadowMatch 1);
               (numbers, colorStr) = filter_parts_loop (split_ws shadowStr) [] [];
               color =
                 (case re_match filter_rgba_re shadowStr of
                    Some rgbaMatch \<Rightarrow> parseColor (m_text rgbaMatch) None
                  | None \<Rightarrow> if colorStr \<noteq> [] then parseColor colorStr None
                            else rgba 0 0 0 (1 / 4))
           in if length numbers \<ge> 2
              then [Shadow \<lparr>sh_type = DROP_SHADOW, sh_color = color,
                            sh_offset_x = nth_or_zero numbers 0,
                            sh_offset_y = nth_or_zero numbers 1,
                            sh_radius = nth_or_zero numbers 2,
                            sh_spread = 0, sh_visible = True\<rparr>]
              else []))"

definition parseFilters :: "css \<Rightarrow> Effect list" where
  "parseFilters styles =
     (let filterStr = styles ''filter'';
          effects1 =
            (if filterStr \<noteq> [] \<and> filterStr \<noteq> ''none'' then
               (case re_match blur_re filterStr of
                  Some blurMatch \<Rightarrow> [Blur LAYER_BLUR (parseFloat (grp_str blurMatch 1)) True]
                | None \<Rightarrow> [])
               @ filter_drop_shadow filterStr
             else []);
          backdropFilter = first_nonempty [styles ''backdropFilter'', styles ''webkitBackdropFilter'']
      in if backdropFilter \<noteq> [] \<and> backdropFilter \<noteq> ''none'' then
           (case re_match blur_re backdropFilter of
              Some blurMatch \<Rightarrow>
                effects1 @ [Blur BACKGROUND_BLUR (parseFloat (grp_str blurMatch 1)) True]
            | None \<Rightarrow> effects1)
         else effects1)"

subsection \<open>Text metrics, opacity and visibility\<close>

datatype line_height = LineHeight rat | LineHeightAUTO

definition parseLineHeight :: "string \<Rightarrow> string \<Rightarrow> line_height" where
  "parseLineHeight lineHeight fontSize =
     (if lineHeight = ''normal'' then
        (let fs = or_num (parseFloat fontSize) 16
         in LineHeight (math_round (fs * (12 / 10) * 100) / 100))
      else
        (case parseFloat lineHeight of
           Num lh \<Rightarrow>
             if str_includes lineHeight ''px'' then LineHeight lh
             else (let fs = or_num (parseFloat fontSize) 16 in LineHeight (lh * fs))
         | NaN \<Rightarrow> LineHeightAUTO
         | Undefined \<Rightarrow> LineHeightAUTO))"

definition parseOpacity :: "css \<Rightarrow> rat" where
  "parseOpacity styles =
     (case parseFloat (styles ''opacity'') of Num v \<Rightarrow> v | NaN \<Rightarrow> 1 | Undefined \<Rightarrow> 1)"

definition isVisible :: "css \<Rightarrow> bool" where
  "isVisible styles \<longleftrightarrow>
     styles ''display'' \<noteq> ''none'' \<and> styles ''visibility'' \<noteq> ''hidden'' \<and> parseOpacity styles > 0"

subsection \<open>Auto layout\<close>

datatype layout_mode = HORIZONTAL | VERTICAL

text \<open>The alignment tags \<open>MIN\<close> and \<open>MAX\<close> are written \<open>ALIGN_MIN\<close> and \<open>ALIGN_MAX\<close>.\<close>

datatype align = ALIGN_MIN | CENTER | ALIGN_MAX | SPACE_BETWEEN | BASELINE

datatype sizing_mode = FIXED | AUTO

record AutoLayoutConfig =
  mode :: layout_mode
  primaryAxisAlignItems :: align
  counterAxisAlignItems :: align
  paddingTop :: rat
  paddingRight :: rat
  paddingBottom :: rat
  paddingLeft :: rat
  itemSpacing :: rat
  primaryAxisSizingMode :: sizing_mode
  counterAxisSizingMode :: sizing_mode
  wrap :: "bool option"
  counterAxisStretch :: "bool option"

definition parseJustifyContent :: "string \<Rightarrow> align" where
  "parseJustifyContent justify =
     (if justify = ''center'' then CENTER
      else if justify = ''flex-end'' \<or> justify = ''end'' then ALIGN_MAX
      else if justify = ''space-between'' \<or> justify = ''space-around'' \<or> justify = ''space-evenly''
      then SPACE_BETWEEN
      else if justify = ''flex-start'' \<or> justify = ''start'' then ALIGN_MIN
      else ALIGN_MIN)"

definition parseAlignItems :: "string \<Rightarrow> align" where
  "parseAlignItems al =
     (if al = ''center'' then CENTER
      else if al = ''flex-end'' \<or> al = ''end'' then ALIGN_MAX
      else if al = ''baseline'' then BASELINE
      else if al = ''stretch'' \<or> al = ''normal'' then ALIGN_MIN
      else if al = ''flex-start'' \<or> al = ''start'' then ALIGN_MIN
      else ALIGN_MIN)"

definition parseGap :: "string \<Rightarrow> rat" where
  "parseGap gap =
     (if gap = [] \<or> gap = ''normal'' then 0
      else (case split_ws gap of
              [] \<Rightarrow> 0
            | v # _ \<Rightarrow> or_num (parseFloat v) 0))"

definition parseGridJustifyContent :: "string \<Rightarrow> align" where
  "parseGridJustifyContent justify =
     (if justify = ''center'' then CENTER
      else if justify = ''end'' \<or> justify = ''flex-end'' then ALIGN_MAX
      else if justify = ''space-between'' then SPACE_BETWEEN
      else ALIGN_MIN)"

definition parseGridAlignItems :: "string \<Rightarrow> align" where
  "parseGridAlignItems al =
     (if al = ''center'' then CENTER
      else if al = ''end'' \<or> al = ''flex-end'' then ALIGN_MAX
      else if al = ''baseline'' then BASELINE
      else ALIGN_MIN)"

definition parseGridAsAutoLayout :: "css \<Rightarrow> AutoLayoutConfig option" where
  "parseGridAsAutoLayout styles =
     (let gridTemplateColumns = styles ''gridTemplateColumns'';
          columnCount =
            (if gridTemplateColumns \<noteq> [] \<and> gridTemplateColumns \<noteq> ''none''
             then length (filter (\<lambda>v. v \<noteq> [] \<and> v \<noteq> ''none'') (split_ws gridTemplateColumns))
             else 1);
          isHorizontal = (columnCount > 1);
          columnGap = or_num (parseFloat (styles ''columnGap'')) 0;
          rowGap = or_num (parseFloat (styles ''rowGap'')) 0;
          gap = or_num (parseFloat (styles ''gap'')) 0;
          spacing = (if isHorizontal then (if columnGap \<noteq> 0 then columnGap else gap)
                     else (if rowGap \<noteq> 0 then rowGap else gap));
          alignContent = styles ''alignContent''
      in Some \<lparr>mode = (if isHorizontal then HORIZONTAL else VERTICAL),
               primaryAxisAlignItems =
                 parseGridJustifyContent
                   (first_nonempty [styles ''justifyContent'', styles ''justifyItems'']),
               counterAxisAlignItems =
                 parseGridAlignItems
                   (if alignContent \<noteq> [] \<and> alignContent \<noteq> ''normal'' \<and> alignContent \<noteq> ''stretch''
                    then alignContent else styles ''alignItems''),
               paddingTop = or_num (parseFloat (styles ''paddingTop'')) 0,
               paddingRight = or_num (parseFloat (styles ''paddingRight'')) 0,
               paddingBottom = or_num (parseFloat (styles ''paddingBottom'')) 0,
               paddingLeft = or_num (parseFloat (styles ''paddingLeft'')) 0,
               itemSpacing = spacing,
               primaryAxisSizingMode = AUTO,
               counterAxisSizingMode = AUTO,
               wrap = Some isHorizontal,
               counterAxisStretch = None\<rparr>)"

definition parseAutoLayout :: "css \<Rightarrow> AutoLayoutConfig option" where
  "parseAutoLayout styles =
     (let display = styles ''display'';
          flexDirection = styles ''flexDirection'';
          position = styles ''position''
      in if position = ''absolute'' \<or> position = ''fixed'' then None
         else if display = ''grid'' \<or> display = ''inline-grid'' then parseGridAsAutoLayout styles
         else
           (let pTop = or_num (parseFloat (styles ''paddingTop'')) 0;
                pRight = or_num (parseFloat (styles ''paddingRight'')) 0;
                pBottom = or_num (parseFloat (styles ''paddingBottom'')) 0;
                pLeft = or_num (parseFloat (styles ''paddingLeft'')) 0
            in if display = ''flex'' \<or> display = ''inline-flex'' then
                 (let isVertical = (flexDirection = ''column'' \<or> flexDirection = ''column-reverse'');
                      alignItems = styles ''alignItems'';
                      isStretch = (alignItems = ''stretch'')
                  in Some \<lparr>mode = (if isVertical then VERTICAL else HORIZONTAL),
                           primaryAxisAlignItems = parseJustifyContent (styles ''justifyContent''),
                           counterAxisAlignItems = parseAlignItems alignItems,
                           paddingTop = pTop, paddingRight = pRight,
                           paddingBottom = pBottom, paddingLeft = pLeft,
                           itemSpacing = parseGap (styles ''gap''),
                           primaryAxisSizingMode = AUTO,
                           counterAxisSizingMode = AUTO,
                           wrap = Some (styles ''flexWrap'' = ''wrap''),
                           counterAxisStretch = (if isStretch then Some True else None)\<rparr>)
               else if display = ''block'' \<or> display = ''list-item'' \<or> display = ''flow-root''
                       \<or> display = ''table'' \<or> display = ''table-row-group''
                       \<or> display = ''table-row'' then
                 Some \<lparr>mode = VERTICAL,
                       primaryAxisAlignItems = ALIGN_MIN,
                       counterAxisAlignItems =
                         (if styles ''textAlign'' = ''center'' then CENTER else ALIGN_MIN),
                       paddingTop = pTop, paddingRight = pRight,
                       paddingBottom = pBottom, paddingLeft = pLeft,
                       itemSpacing = 0,
                       primaryAxisSizingMode = AUTO,
                       counterAxisSizingMode = AUTO,
                       wrap = None,
                       counterAxisStretch = None\<rparr>
               else if display = ''inline-block'' \<or> display = ''inline'' \<or> display = ''table-cell'' then
                 Some \<lparr>mode = HORIZONTAL,
                       primaryAxisAlignItems = ALIGN_MIN,
                       counterAxisAlignItems = CENTER,
                       paddingTop = pTop, paddingRight = pRight,
                       paddingBottom = pBottom, paddingLeft = pLeft,
                       itemSpacing = 0,
                       primaryAxisSizingMode = AUTO,
                       counterAxisSizingMode = AUTO,
                       wrap = None,
                       counterAxisStretch = None\<rparr>
               else None))"

section \<open>dom-to-layer.ts\<close>

text \<open>
  The builder reads the document through the browser: computed styles, bounding boxes,
  text and the canvas. What it reads of one element is gathered in a record, and an element
  is that record with its child elements. The fields, each named \<open>e_\<close> and then as
  below, are:
  \<^item> \<open>tagName\<close>, \<open>styles\<close> (\<open>getComputedStyle(element)\<close>) and \<open>rect\<close>
    (\<open>getBoundingClientRect()\<close>);
  \<^item> \<open>parentDisplay\<close>, the \<open>display\<close> of the parent element, absent at the top;
  \<^item> \<open>inputType\<close> and \<open>imgSrc\<close>, the \<open>type\<close> and \<open>src\<close> of an input or image;
  \<^item> \<open>innerText\<close> and \<open>textContent\<close>;
  \<^item> \<open>textNodes\<close>, the direct text nodes in document order, each with its text and the
    bounding box of a range over it;
  \<^item> \<open>sanitizedSvg\<close>, what \<open>sanitizeSvg\<close> returns for the element (absent for
    \<open>null\<close>);
  \<^item> for each of \<open>::before\<close> and \<open>::after\<close>: the computed style of the pseudo-element,
    its content with the quotes stripped and the escapes decoded, and the data URL of the
    glyph drawn on a canvas, absent when the canvas stays blank or cannot be used.

  The decoded content is part of the snapshot because its characters may lie beyond one
  byte; an escape above U+10FFFF, at which \<open>String.fromCodePoint\<close> raises, is outside
  the model.
\<close>

record rect =
  r_left :: rat
  r_top :: rat
  r_width :: rat
  r_height :: rat

record text_node =
  tn_text :: string
  tn_rect :: rect

record pseudo_snapshot =
  ps_styles :: css
  ps_text :: string
  ps_raster :: "string option"

record elem_info =
  e_tagName :: string
  e_styles :: css
  e_rect :: rect
  e_parentDisplay :: "string option"
  e_inputType :: string
  e_imgSrc :: string
  e_innerText :: string
  e_textContent :: string
  e_textNodes :: "text_node list"
  e_sanitizedSvg :: "string option"
  e_pseudoBefore :: pseudo_snapshot
  e_pseudoAfter :: pseudo_snapshot

datatype element = Element (el_info: elem_info) (el_children: "element list")

datatype layer_type = FRAME | TEXT | RECTANGLE | ELLIPSE | GROUP

text \<open>
  A layer: its own fields and its children. The fields that are only written and that no
  branch of the builder reads (\<open>name\<close>, \<open>cornerRadius\<close>, \<open>textStyles\<close>,
  \<open>textSegments\<close>, \<open>flexGrow\<close>, \<open>rotation\<close>, \<open>imageUrl\<close>, and the \<open>id\<close> and
  \<open>className\<close> of \<open>sourceElement\<close>) are left out. \<open>isAbsolutelyPositioned\<close> is
  either \<open>true\<close> or \<open>undefined\<close>, read as a truth value only.
\<close>

record layer_fields =
  ltype :: layer_type
  xpos :: rat
  ypos :: rat
  width :: rat
  height :: rat
  fills :: "Paint list"
  strokes :: "StrokeConfig option"
  effects :: "Effect list"
  opacity :: rat
  visible :: bool
  clipsContent :: bool
  characters :: "string option"
  autoLayout :: "AutoLayoutConfig option"
  isAbsolutelyPositioned :: bool
  zIndex :: "rat option"
  svgString :: "string option"
  sourceTag :: "string option"

datatype LayerMeta = LayerMeta (attrs: layer_fields) (layer_children: "LayerMeta list")

record ConversionOptions =
  includeHidden :: bool
  maxDepth :: rat
  rootOffset :: "rat \<times> rat"
  captureImages :: bool

definition DEFAULT_OPTIONS :: ConversionOptions where
  "DEFAULT_OPTIONS = \<lparr>includeHidden = False, maxDepth = 50, rootOffset = (0, 0), captureImages = True\<rparr>"

definition isNonVisualElement :: "string \<Rightarrow> bool" where
  "isNonVisualElement tag \<longleftrightarrow>
     tag \<in> set [''script'', ''style'', ''link'', ''meta'', ''head'', ''title'', ''noscript'',
                ''template'', ''slot'', ''br'', ''wbr'', ''defs'', ''clipPath'', ''mask'',
                ''symbol'', ''use'', ''colgroup'', ''col'']"

definition isTextElement :: "string \<Rightarrow> bool" where
  "isTextElement tag \<longleftrightarrow>
     tag \<in> set [''p'', ''span'', ''h1'', ''h2'', ''h3'', ''h4'', ''h5'', ''h6'', ''a'', ''label'',
                ''strong'', ''em'', ''b'', ''u'', ''small'', ''mark'', ''del'', ''ins'', ''sub'',
                ''sup'', ''code'', ''pre'', ''blockquote'', ''cite'', ''q'', ''button'', ''li'',
                ''dt'', ''dd'']"

definition isTextOnlyElement :: "element \<Rightarrow> bool" where
  "isTextOnlyElement el \<longleftrightarrow>
     (if length (el_children el) > 0 then False
      else trim (e_textContent (el_info el)) \<noteq> [])"

definition hasRealTextNodes :: "elem_info \<Rightarrow> bool" where
  "hasRealTextNodes e \<longleftrightarrow> list_ex (\<lambda>n. trim (tn_text n) \<noteq> []) (e_textNodes e)"

definition determineLayerType :: "element \<Rightarrow> layer_type" where
  "determineLayerType el =
     (let e = el_info el;
          st = e_styles e;
          tag = toLowerCase (e_tagName e)
      in if tag = ''img'' then RECTANGLE
         else if tag = ''svg'' then FRAME
         else if tag = ''circle'' \<or> tag = ''ellipse'' then ELLIPSE
         else if tag = ''rect'' then RECTANGLE
         else if tag = ''path'' \<or> tag = ''polygon'' \<or> tag = ''polyline'' \<or> tag = ''line'' then FRAME
         else if tag = ''g'' then GROUP
         else if tag = ''table'' \<or> tag = ''thead'' \<or> tag = ''tbody'' \<or> tag = ''tfoot'' \<or> tag = ''tr''
         then FRAME
         else if tag = ''caption'' then FRAME
         else if (st ''borderRadius'' = ''50%'' \<or> st ''borderRadius'' = ''9999px'')
                 \<and> \<bar>r_width (e_rect e) - r_height (e_rect e)\<bar> < 2 then ELLIPSE
         else
           (let bgColor = st ''backgroundColor'';
                hasBackground = (bgColor \<noteq> [] \<and> bgColor \<noteq> ''transparent''
                                 \<and> bgColor \<noteq> ''rgba(0, 0, 0, 0)'')
            in if \<not> hasBackground \<and> (isTextElement tag \<or> isTextOnlyElement el) then
                 (let hasBlockChildren =
                        list_ex (\<lambda>child.
                                   e_styles (el_info child) ''display''
                                     \<in> set [''block'', ''flex'', ''grid'', ''table'', ''list-item''])
                                (el_children el);
                      pt = or_num (parseFloat (st ''paddingTop'')) 0;
                      pr = or_num (parseFloat (st ''paddingRight'')) 0;
                      pb = or_num (parseFloat (st ''paddingBottom'')) 0;
                      pl = or_num (parseFloat (st ''paddingLeft'')) 0
                  in if hasBlockChildren then FRAME
                     else if pt > 2 \<or> pr > 2 \<or> pb > 2 \<or> pl > 2 then FRAME
                     else if isTextElement tag \<or> hasRealTextNodes e then TEXT
                     else FRAME)
               else FRAME))"

definition getDirectTextContent :: "elem_info \<Rightarrow> string" where
  "getDirectTextContent e = trim (e_innerText e)"

definition getDirectTextNodesOnly :: "elem_info \<Rightarrow> string" where
  "getDirectTextNodesOnly e = trim (concat (map tn_text (e_textNodes e)))"

text \<open>The layer as \<open>convertElement\<close> first creates it.\<close>

definition base_layer :: "(string \<Rightarrow> string) \<Rightarrow> ConversionOptions \<Rightarrow> element \<Rightarrow> layer_fields" where
  "base_layer resolve options el =
     (let e = el_info el;
          st = e_styles e;
          position = st ''position'';
          isFixed = (position = ''fixed'');
          isSticky = (position = ''sticky'');
          isAbsolute = (position = ''absolute'' \<or> isFixed \<or> isSticky);
          z = (case parseInt (st ''zIndex'') 10 of Num v \<Rightarrow> v | NaN \<Rightarrow> 0 | Undefined \<Rightarrow> 0)
      in \<lparr>ltype = determineLayerType el,
          xpos = r_left (e_rect e) - fst (rootOffset options),
          ypos = (if isFixed \<or> isSticky then 0 else r_top (e_rect e) - snd (rootOffset options)),
          width = r_width (e_rect e),
          height = r_height (e_rect e),
          fills = parseBackground resolve st,
          strokes = parseBorder st,
          effects = parseBoxShadow st @ parseFilters st,
          opacity = parseOpacity st,
          visible = True,
          clipsContent = (st ''overflow'' = ''hidden'' \<or> st ''overflow'' = ''clip''),
          characters = None,
          autoLayout = None,
          isAbsolutelyPositioned = isAbsolute,
          zIndex = (if isFixed \<or> isSticky then Some (max z 1000)
                    else if z \<noteq> 0 then Some z else None),
          svgString = None,
          sourceTag = Some (e_tagName e)\<rparr>)"

text \<open>Native check boxes and radio buttons get a default look.\<close>

definition form_control_step :: "elem_info \<Rightarrow> layer_fields \<Rightarrow> layer_fields" where
  "form_control_step e layer =
     (if e_tagName e = ''INPUT''
         \<and> (e_inputType e = ''checkbox'' \<or> e_inputType e = ''radio'')
         \<and> e_styles e ''appearance'' \<noteq> ''none''
         \<and> length (fills layer) = 0 \<and> strokes layer = None
      then layer\<lparr>fills := [SOLID (rgba 1 1 1 1) 1 True],
                 strokes := Some \<lparr>stroke_color = rgba (796 / 1000) (835 / 1000) (882 / 1000) 1,
                                  stroke_weight = 15 / 10, stroke_position = INSIDE,
                                  dashPattern = None, individualWeights = None\<rparr>,
                 width := (if width layer < 16 then 20 else width layer),
                 height := (if height layer < 16 then 20 else height layer)\<rparr>
      else layer)"

text \<open>A child of a flex container grows to its \<open>max-width\<close>, within three times its width.\<close>

definition max_width_step :: "elem_info \<Rightarrow> layer_fields \<Rightarrow> layer_fields" where
  "max_width_step e layer =
     (case e_parentDisplay e of
        None \<Rightarrow> layer
      | Some parentDisplay \<Rightarrow>
          if parentDisplay = ''flex'' \<or> parentDisplay = ''inline-flex'' then
            (let maxWidth = e_styles e ''maxWidth''
             in if maxWidth \<noteq> [] \<and> maxWidth \<noteq> ''none'' then
                  (case parseFloat maxWidth of
                     Num maxW \<Rightarrow>
                       if maxW > width layer \<and> maxW \<le> width layer * 3
                       then layer\<lparr>width := maxW\<rparr> else layer
                   | NaN \<Rightarrow> layer
                   | Undefined \<Rightarrow> layer)
                else layer)
          else layer)"

definition text_step :: "elem_info \<Rightarrow> layer_fields \<Rightarrow> layer_fields" where
  "text_step e layer =
     (if ltype layer = TEXT then
        (let txt = getDirectTextContent e
         in if txt \<noteq> []
            then layer\<lparr>characters := Some txt,
                       effects := effects layer @ parseTextShadow (e_styles e)\<rparr>
            else layer)
      else layer)"

definition image_step :: "ConversionOptions \<Rightarrow> elem_info \<Rightarrow> layer_fields \<Rightarrow> layer_fields" where
  "image_step options e layer =
     (if toLowerCase (e_tagName e) = ''img'' \<and> captureImages options \<and> e_imgSrc e \<noteq> [] then
        (let objectFit = e_styles e ''objectFit'';
             scaleMode =
               (if objectFit = ''cover'' then FILL
                else if objectFit = ''contain'' \<or> objectFit = ''scale-down'' then FIT
                else if objectFit = ''fill'' then CROP
                else if objectFit = ''none'' then CROP
                else FILL)
         in layer\<lparr>fills := [IMAGE (e_imgSrc e) scaleMode 1 True]\<rparr>)
      else layer)"

definition auto_layout_step :: "elem_info \<Rightarrow> layer_fields \<Rightarrow> layer_fields" where
  "auto_layout_step e layer =
     (case parseAutoLayout (e_styles e) of
        Some al \<Rightarrow> layer\<lparr>autoLayout := Some al\<rparr>
      | None \<Rightarrow> layer)"

subsection \<open>Children\<close>

text \<open>The first pass over the child elements: the tallest fixed or sticky child near the top.\<close>

definition fixedTopHeight :: "element list \<Rightarrow> rat" where
  "fixedTopHeight kids =
     foldl (\<lambda>acc child.
              (let childPos = e_styles (el_info child) ''position'';
                   childRect = e_rect (el_info child)
               in if (childPos = ''fixed'' \<or> childPos = ''sticky'') \<and> r_top childRect < 100
                  then max acc (r_height childRect) else acc))
           0 kids"

definition set_y :: "rat \<Rightarrow> LayerMeta \<Rightarrow> LayerMeta" where
  "set_y v l = LayerMeta ((attrs l)\<lparr>ypos := v\<rparr>) (layer_children l)"

text \<open>A flow child is moved up by the height of the fixed header.\<close>

definition adjust_for_fixed :: "rat \<Rightarrow> LayerMeta \<Rightarrow> LayerMeta" where
  "adjust_for_fixed fth childLayer =
     (if \<not> isAbsolutelyPositioned (attrs childLayer) \<and> fth > 0 then
        (if \<bar>ypos (attrs childLayer) - fth\<bar> < 20 then set_y 0 childLayer
         else if ypos (attrs childLayer) > fth then set_y (ypos (attrs childLayer) - fth) childLayer
         else childLayer)
      else childLayer)"

definition is_pseudo_tag :: "LayerMeta \<Rightarrow> bool" where
  "is_pseudo_tag c \<longleftrightarrow>
     sourceTag (attrs c) = Some ''::before'' \<or> sourceTag (attrs c) = Some ''::after''"

text \<open>The range over the first text node that is not blank: width, height, x and y of the text.\<close>

definition measure_text :: "elem_info \<Rightarrow> rat \<Rightarrow> rat \<Rightarrow> rat \<Rightarrow> rat \<Rightarrow> rat \<times> rat \<times> rat \<times> rat" where
  "measure_text e contentWidth contentHeight pLeft pTop =
     (case filter (\<lambda>n. trim (tn_text n) \<noteq> []) (e_textNodes e) of
        [] \<Rightarrow> (contentWidth, contentHeight, 0, 0)
      | n # _ \<Rightarrow>
          (let textRect = tn_rect n
           in ((if r_width textRect \<noteq> 0 then r_width textRect else contentWidth),
               (if r_height textRect \<noteq> 0 then r_height textRect else contentHeight),
               r_left textRect - r_left (e_rect e) - pLeft,
               r_top textRect - r_top (e_rect e) - pTop)))"

text \<open>
  The text of the element itself becomes a child of type \<open>TEXT\<close>; a frame holding nothing
  else is laid out horizontally. The result is the layer and the children after this step.
\<close>

definition text_child_step ::
  "elem_info \<Rightarrow> layer_fields \<Rightarrow> LayerMeta list \<Rightarrow> layer_fields \<times> LayerMeta list" where
  "text_child_step e layer built =
     (let st = e_styles e;
          directText = (if length built = 0 then getDirectTextContent e
                        else getDirectTextNodesOnly e)
      in if directText = [] then (layer, built)
         else
           (let pTop = or_num (parseFloat (st ''paddingTop'')) 0;
                pRight = or_num (parseFloat (st ''paddingRight'')) 0;
                pBottom = or_num (parseFloat (st ''paddingBottom'')) 0;
                pLeft = or_num (parseFloat (st ''paddingLeft'')) 0;
                contentWidth = r_width (e_rect e) - pLeft - pRight;
                contentHeight = r_height (e_rect e) - pTop - pBottom;
                isTextOnly = (length built = 0 \<or> list_all is_pseudo_tag built);
                textAlign = st ''textAlign'';
                layer' =
                  (if isTextOnly then
                     layer\<lparr>autoLayout := Some
                       \<lparr>mode = HORIZONTAL,
                        primaryAxisAlignItems =
                          (if textAlign = ''center'' then CENTER
                           else if textAlign = ''right'' then ALIGN_MAX else ALIGN_MIN),
                        counterAxisAlignItems = CENTER,
                        paddingTop = (case autoLayout layer of Some al \<Rightarrow> paddingTop al | None \<Rightarrow> pTop),
                        paddingRight =
                          (case autoLayout layer of Some al \<Rightarrow> paddingRight al | None \<Rightarrow> pRight),
                        paddingBottom =
                          (case autoLayout layer of Some al \<Rightarrow> paddingBottom al | None \<Rightarrow> pBottom),
                        paddingLeft =
                          (case autoLayout layer of Some al \<Rightarrow> paddingLeft al | None \<Rightarrow> pLeft),
                        itemSpacing = 0,
                        primaryAxisSizingMode = FIXED,
                        counterAxisSizingMode = FIXED,
                        wrap = None,
                        counterAxisStretch = None\<rparr>\<rparr>
                   else layer);
                (textWidth, textHeight, textX, textY) =
                  (if \<not> isTextOnly then measure_text e contentWidth contentHeight pLeft pTop
                   else (contentWidth, contentHeight, 0, 0));
                textChild =
                  LayerMeta
                    \<lparr>ltype = TEXT, xpos = textX, ypos = textY,
                     width = max 1 textWidth, height = max 1 textHeight,
                     fills = [], strokes = None, effects = parseTextShadow st,
                     opacity = 1, visible = True, clipsContent = False,
                     characters = Some directText, autoLayout = None,
                     isAbsolutelyPositioned = False, zIndex = None,
                     svgString = None, sourceTag = None\<rparr> []
            in (layer', built @ [textChild])))"

text \<open>
  \<open>children.sort((a, b) => (a.zIndex || 0) - (b.zIndex || 0))\<close>: the sort of an array is
  stable, so it is the stable sort on the key \<open>zIndex || 0\<close>.
\<close>

definition z_key :: "LayerMeta \<Rightarrow> rat" where
  "z_key l = (case zIndex (attrs l) of Some z \<Rightarrow> z | None \<Rightarrow> 0)"

definition sort_by_z :: "LayerMeta list \<Rightarrow> LayerMeta list" where
  "sort_by_z cs = sort_key z_key cs"

subsection \<open>Pseudo-elements\<close>

definition capturePseudoElement ::
  "(string \<Rightarrow> string) \<Rightarrow> elem_info \<Rightarrow> string \<Rightarrow> pseudo_snapshot \<Rightarrow> LayerMeta option" where
  "capturePseudoElement resolve e pseudo ps =
     (let st = ps_styles ps;
          content = st ''content''
      in if content = [] \<or> content = ''none'' \<or> content = ''normal''
            \<or> content = [CHR 0x22, CHR 0x22] \<or> content = [CHR 0x27, CHR 0x27] then None
         else if st ''display'' = ''none'' \<or> st ''visibility'' = ''hidden'' then None
         else
           (let txt = ps_text ps;
                isTextContent = (length txt > 0 \<and> \<not> startsWith content ''url('');
                fontFamily = st ''fontFamily'';
                isIconFont = (isTextContent
                              \<and> (str_includes fontFamily ''Font Awesome''
                                   \<or> str_includes fontFamily ''Material''
                                   \<or> str_includes fontFamily ''icon''
                                   \<or> str_includes fontFamily ''Icon''));
                fontSize = or_num (parseFloat (st ''fontSize'')) 16;
                iconWidth = (if r_width (e_rect e) \<noteq> 0 then r_width (e_rect e) else fontSize);
                iconHeight = (if r_height (e_rect e) \<noteq> 0 then r_height (e_rect e) else fontSize);
                bg = parseBackground resolve st;
                w = or_num (parseFloat (st ''width'')) 0;
                h = or_num (parseFloat (st ''height'')) 0;
                position = st ''position''
            in case (if isIconFont \<and> length txt > 0 then ps_raster ps else None) of
                 Some dataUrl \<Rightarrow>
                   Some (LayerMeta
                     \<lparr>ltype = RECTANGLE, xpos = 0, ypos = 0,
                      width = iconWidth, height = iconHeight,
                      fills = [IMAGE dataUrl FILL 1 True], strokes = None, effects = [],
                      opacity = parseOpacity st, visible = True, clipsContent = False,
                      characters = None, autoLayout = None,
                      isAbsolutelyPositioned = False, zIndex = None,
                      svgString = None, sourceTag = Some pseudo\<rparr> [])
               | None \<Rightarrow>
               if w = 0 \<and> h = 0 \<and> \<not> isTextContent \<and> length bg = 0 then None
               else
                 Some (LayerMeta
                   \<lparr>ltype = (if isTextContent then TEXT else FRAME),
                    xpos = or_num (parseFloat (st ''left'')) 0,
                    ypos = or_num (parseFloat (st ''top'')) 0,
                    width = (if w \<noteq> 0 then w else if isTextContent then 100 else 20),
                    height = (if h \<noteq> 0 then h else if isTextContent then 20 else 20),
                    fills = bg, strokes = parseBorder st, effects = parseBoxShadow st,
                    opacity = parseOpacity st, visible = True, clipsContent = False,
                    characters = (if isTextContent then Some txt else None),
                    autoLayout = None,
                    isAbsolutelyPositioned = (position = ''absolute'' \<or> position = ''fixed''),
                    zIndex = None, svgString = None, sourceTag = Some pseudo\<rparr> [])))"

text \<open>\<open>::before\<close> goes to the front of the sorted children and \<open>::after\<close> to the back.\<close>

definition add_pseudo_elements ::
  "(string \<Rightarrow> string) \<Rightarrow> elem_info \<Rightarrow> LayerMeta list \<Rightarrow> LayerMeta list" where
  "add_pseudo_elements resolve e cs =
     (let cs1 = (case capturePseudoElement resolve e ''::before'' (e_pseudoBefore e) of
                   Some beforeElement \<Rightarrow> beforeElement # cs
                 | None \<Rightarrow> cs)
      in case capturePseudoElement resolve e ''::after'' (e_pseudoAfter e) of
           Some afterElement \<Rightarrow> cs1 @ [afterElement]
         | None \<Rightarrow> cs1)"

subsection \<open>Gap inference\<close>

text \<open>The gaps between consecutive flow children along the primary axis, rounded, none below 0.\<close>

fun measured_gaps :: "bool \<Rightarrow> LayerMeta list \<Rightarrow> rat list" where
  "measured_gaps isVertical (cur # nxt # rest) =
     math_round (max 0 (if isVertical
                        then ypos (attrs nxt) - (ypos (attrs cur) + height (attrs cur))
                        else xpos (attrs nxt) - (xpos (attrs cur) + width (attrs cur))))
       # measured_gaps isVertical (nxt # rest)"
| "measured_gaps isVertical cs = []"

definition average_gap :: "rat list \<Rightarrow> rat" where
  "average_gap gaps = math_round (foldl (+) 0 gaps / of_nat (length gaps))"

text \<open>The transparent frame that stands for a child and the extra space after it.\<close>

definition wrapper_frame :: "bool \<Rightarrow> align \<Rightarrow> rat \<Rightarrow> LayerMeta \<Rightarrow> LayerMeta" where
  "wrapper_frame isVertical counterAlign extraGap child =
     LayerMeta
       \<lparr>ltype = FRAME,
        xpos = xpos (attrs child), ypos = ypos (attrs child),
        width = width (attrs child),
        height = height (attrs child) + (if isVertical then extraGap else 0),
        fills = [], strokes = None, effects = [],
        opacity = 1, visible = True, clipsContent = False,
        characters = None,
        autoLayout = Some
          \<lparr>mode = (if isVertical then VERTICAL else HORIZONTAL),
           primaryAxisAlignItems = ALIGN_MIN,
           counterAxisAlignItems = counterAlign,
           paddingTop = 0,
           paddingRight = (if isVertical then 0 else extraGap),
           paddingBottom = (if isVertical then extraGap else 0),
           paddingLeft = 0,
           itemSpacing = 0,
           primaryAxisSizingMode = AUTO,
           counterAxisSizingMode = AUTO,
           wrap = None, counterAxisStretch = None\<rparr>,
        isAbsolutelyPositioned = False, zIndex = None,
        svgString = None, sourceTag = None\<rparr>
       [LayerMeta ((attrs child)\<lparr>xpos := 0, ypos := 0\<rparr>) (layer_children child)]"

text \<open>
  The source maps each flow child but the last to the gap after it (a \<open>Map\<close> keyed by
  the child object) and then walks over all children. The children are distinct objects,
  so the walk meets the flow children in the order of their gaps: \<open>wrap_loop\<close> carries
  the gaps not yet used, and a flow child with no gap left is the last one.
\<close>

fun wrap_loop :: "bool \<Rightarrow> align \<Rightarrow> rat \<Rightarrow> LayerMeta list \<Rightarrow> rat list \<Rightarrow> LayerMeta list" where
  "wrap_loop isVertical counterAlign minGap [] gaps = []"
| "wrap_loop isVertical counterAlign minGap (child # rest) gaps =
     (if isAbsolutelyPositioned (attrs child)
      then child # wrap_loop isVertical counterAlign minGap rest gaps
      else
        (case gaps of
           [] \<Rightarrow> child # wrap_loop isVertical counterAlign minGap rest []
         | gapAfter # gaps' \<Rightarrow>
             (if gapAfter > minGap + 4
              then wrapper_frame isVertical counterAlign (gapAfter - minGap) child
              else child)
               # wrap_loop isVertical counterAlign minGap rest gaps'))"

definition is_flex_or_grid :: "string \<Rightarrow> bool" where
  "is_flex_or_grid display \<longleftrightarrow>
     display = ''flex'' \<or> display = ''inline-flex'' \<or> display = ''grid'' \<or> display = ''inline-grid''"

text \<open>
  The gap post-pass of \<open>convertElement\<close>, given the \<open>display\<close> of the element, the
  auto layout of its layer and the children. It gives the auto layout and the children
  after the pass.
\<close>

definition infer_gaps ::
  "string \<Rightarrow> AutoLayoutConfig \<Rightarrow> LayerMeta list \<Rightarrow> AutoLayoutConfig \<times> LayerMeta list" where
  "infer_gaps display al cs =
     (let flowChildren = filter (\<lambda>c. \<not> isAbsolutelyPositioned (attrs c)) cs
      in if length cs \<ge> 2 \<and> length flowChildren \<ge> 2 then
           (let isVertical = (mode al = VERTICAL);
                gaps = measured_gaps isVertical flowChildren
            in if length gaps > 0 then
                 (if is_flex_or_grid display then
                    (let cssGap = itemSpacing al;
                         avgGap = average_gap gaps
                     in if \<bar>avgGap - cssGap\<bar> > 4 then (al\<lparr>itemSpacing := avgGap\<rparr>, cs)
                        else (al, cs))
                  else
                    (let minGap = Min (set gaps);
                         maxGap = Max (set gaps);
                         avgGap = average_gap gaps
                     in if maxGap - minGap \<le> 4 then (al\<lparr>itemSpacing := avgGap\<rparr>, cs)
                        else (al\<lparr>itemSpacing := minGap\<rparr>,
                              wrap_loop isVertical (counterAxisAlignItems al) minGap cs gaps)))
               else (al, cs))
         else (al, cs))"

subsection \<open>Cross-axis centring\<close>

definition detect_centering :: "rat \<Rightarrow> AutoLayoutConfig \<Rightarrow> LayerMeta list \<Rightarrow> AutoLayoutConfig" where
  "detect_centering layerWidth al cs =
     (if mode al = VERTICAL then
        (let flowChildren = filter (\<lambda>c. \<not> isAbsolutelyPositioned (attrs c)) cs
         in if length flowChildren > 0 then
              (let pLeft = paddingLeft al;
                   pRight = paddingRight al;
                   contentWidth = layerWidth - pLeft - pRight;
                   narrow = filter (\<lambda>c. contentWidth > 0 \<and> width (attrs c) < contentWidth - 2)
                                   flowChildren;
                   centeredCount =
                     length (filter (\<lambda>c. \<bar>xpos (attrs c)
                                             - (pLeft + (contentWidth - width (attrs c)) / 2)\<bar> < 8)
                                    narrow);
                   fullWidthCount = length flowChildren - length narrow;
                   nonFullWidthChildren = length flowChildren - fullWidthCount
               in if nonFullWidthChildren > 0
                     \<and> (of_nat centeredCount :: rat) > of_nat nonFullWidthChildren / 2
                  then al\<lparr>counterAxisAlignItems := CENTER\<rparr> else al)
            else al)
      else al)"

text \<open>The two post-passes on the layer of the element.\<close>

definition layout_post_pass ::
  "string \<Rightarrow> layer_fields \<Rightarrow> LayerMeta list \<Rightarrow> layer_fields \<times> LayerMeta list" where
  "layout_post_pass display layer cs =
     (case autoLayout layer of
        None \<Rightarrow> (layer, cs)
      | Some al \<Rightarrow>
          (let (al1, cs1) = infer_gaps display al cs;
               al2 = detect_centering (width layer) al1 cs1
           in (layer\<lparr>autoLayout := Some al2\<rparr>, cs1)))"

subsection \<open>The recursive builder\<close>

fun convertElement ::
  "(string \<Rightarrow> string) \<Rightarrow> ConversionOptions \<Rightarrow> nat \<Rightarrow> element \<Rightarrow> LayerMeta option" where
  "convertElement resolve options depth (Element e kids) =
     (if of_nat depth > maxDepth options then None
      else if isNonVisualElement (toLowerCase (e_tagName e)) then None
      else if \<not> includeHidden options \<and> \<not> isVisible (e_styles e) then None
      else if r_width (e_rect e) = 0 \<and> r_height (e_rect e) = 0 then None
      else
        (let layer1 = text_step e (max_width_step e (form_control_step e
                        (base_layer resolve options (Element e kids))))
         in if toLowerCase (e_tagName e) = ''svg''
               \<and> (case e_sanitizedSvg e of Some svg \<Rightarrow> svg \<noteq> [] | None \<Rightarrow> False)
            then Some (LayerMeta (layer1\<lparr>svgString := e_sanitizedSvg e\<rparr>) [])
            else
              (let layer2 = auto_layout_step e (image_step options e layer1)
               in if ltype layer2 \<noteq> TEXT then
                    (let childOptions = options\<lparr>rootOffset := (r_left (e_rect e), r_top (e_rect e))\<rparr>;
                         fth = fixedTopHeight kids;
                         built =
                           concat (map (\<lambda>child.
                                          case convertElement resolve childOptions (depth + 1) child of
                                            None \<Rightarrow> []
                                          | Some childLayer \<Rightarrow> [adjust_for_fixed fth childLayer])
                                       kids);
                         withText = text_child_step e layer2 built;
                         cs = add_pseudo_elements resolve e (sort_by_z (snd withText));
                         final = layout_post_pass (e_styles e ''display'') (fst withText) cs
                     in Some (LayerMeta (fst final) (snd final)))
                  else Some (LayerMeta layer2 []))))"

text \<open>
  The options of a call, each possibly absent, are laid over the defaults:
  \<open>{ ...DEFAULT_OPTIONS, ...options }\<close>.
\<close>

record CallOptions =
  opt_includeHidden :: "bool option"
  opt_maxDepth :: "rat option"
  opt_rootOffset :: "(rat \<times> rat) option"
  opt_captureImages :: "bool option"

definition merge_options :: "CallOptions \<Rightarrow> ConversionOptions" where
  "merge_options given =
     \<lparr>includeHidden = (case opt_includeHidden given of Some v \<Rightarrow> v
                        | None \<Rightarrow> includeHidden DEFAULT_OPTIONS),
      maxDepth = (case opt_maxDepth given of Some v \<Rightarrow> v | None \<Rightarrow> maxDepth DEFAULT_OPTIONS),
      rootOffset = (case opt_rootOffset given of Some v \<Rightarrow> v | None \<Rightarrow> rootOffset DEFAULT_OPTIONS),
      captureImages = (case opt_captureImages given of Some v \<Rightarrow> v
                        | None \<Rightarrow> captureImages DEFAULT_OPTIONS)\<rparr>"

definition domToLayer :: "(string \<Rightarrow> string) \<Rightarrow> element \<Rightarrow> CallOptions \<Rightarrow> LayerMeta option" where
  "domToLayer resolve el given = convertElement resolve (merge_options given) 0 el"

definition no_options :: CallOptions where
  "no_options = \<lparr>opt_includeHidden = None, opt_maxDepth = None, opt_rootOffset = None,
                  opt_captureImages = None\<rparr>"

section \<open>Examples\<close>

subsection \<open>Example snapshots\<close>

definition no_styles :: css where
  "no_styles = (\<lambda>p. [])"

definition layered_background :: css where
  "layered_background =
     no_styles(''backgroundImage'' := ''url(a.png), linear-gradient(to right, red, blue)'',
               ''backgroundColor'' := ''rgb(255, 0, 0)'',
               ''color'' := ''rgb(0, 0, 0)'')"


subsection \<open>Example documents\<close>

definition no_pseudo :: pseudo_snapshot where
  "no_pseudo = \<lparr>ps_styles = no_styles, ps_text = [], ps_raster = None\<rparr>"

definition block_styles :: css where
  "block_styles =
     no_styles(''display'' := ''block'', ''visibility'' := ''visible'', ''opacity'' := ''1'',
               ''position'' := ''static'', ''zIndex'' := ''auto'',
               ''backgroundColor'' := ''rgba(0, 0, 0, 0)'', ''backgroundImage'' := ''none'',
               ''boxShadow'' := ''none'', ''filter'' := ''none'', ''overflow'' := ''visible'',
               ''color'' := ''rgb(0, 0, 0)'')"

definition div_info :: "css \<Rightarrow> rect \<Rightarrow> elem_info" where
  "div_info st r =
     \<lparr>e_tagName = ''DIV'', e_styles = st, e_rect = r, e_parentDisplay = Some ''block'',
      e_inputType = [], e_imgSrc = [], e_innerText = [], e_textContent = [], e_textNodes = [],
      e_sanitizedSvg = None, e_pseudoBefore = no_pseudo, e_pseudoAfter = no_pseudo\<rparr>"

text \<open>An empty block 100 wide and 10 high at the given height.\<close>

definition bar :: "rat \<Rightarrow> element" where
  "bar y = Element (div_info block_styles \<lparr>r_left = 0, r_top = y, r_width = 100, r_height = 10\<rparr>) []"



text \<open>
  The auto layout of a block container without padding, the layer of such a container at
  height \<open>y\<close> with height \<open>h\<close>, and the layer of a bar.
\<close>

definition block_layout :: "rat \<Rightarrow> AutoLayoutConfig" where
  "block_layout spacing =
     \<lparr>mode = VERTICAL, primaryAxisAlignItems = ALIGN_MIN, counterAxisAlignItems = ALIGN_MIN,
      paddingTop = 0, paddingRight = 0, paddingBottom = 0, paddingLeft = 0, itemSpacing = spacing,
      primaryAxisSizingMode = AUTO, counterAxisSizingMode = AUTO,
      wrap = None, counterAxisStretch = None\<rparr>"










text \<open>A visible block of width 0 and height 10, and a \<open>script\<close> element.\<close>

definition thin_bar :: element where
  "thin_bar = Element (div_info block_styles \<lparr>r_left = 0, r_top = 0, r_width = 0, r_height = 10\<rparr>) []"

definition script_element :: element where
  "script_element =
     Element ((div_info block_styles \<lparr>r_left = 0, r_top = 0, r_width = 10, r_height = 10\<rparr>)
                \<lparr>e_tagName := ''SCRIPT''\<rparr>) []"

definition thin_bar_layer :: LayerMeta where
  "thin_bar_layer =
     LayerMeta
       \<lparr>ltype = FRAME, xpos = 0, ypos = 0, width = 0, height = 10,
        fills = [], strokes = None, effects = [], opacity = 1, visible = True,
        clipsContent = False, characters = None, autoLayout = Some (block_layout 0),
        isAbsolutelyPositioned = False, zIndex = None, svgString = None,
        sourceTag = Some ''DIV''\<rparr> []"

text \<open>A block with \<open>display: none\<close>, and the options that ask for hidden elements.\<close>

definition hidden_bar :: element where
  "hidden_bar =
     Element (div_info (block_styles(''display'' := ''none''))
                \<lparr>r_left = 0, r_top = 0, r_width = 100, r_height = 10\<rparr>) []"

definition with_hidden :: CallOptions where
  "with_hidden = no_options\<lparr>opt_includeHidden := Some True\<rparr>"

definition hidden_bar_layer :: LayerMeta where
  "hidden_bar_layer =
     LayerMeta
       \<lparr>ltype = FRAME, xpos = 0, ypos = 0, width = 100, height = 10,
        fills = [], strokes = None, effects = [], opacity = 1, visible = True,
        clipsContent = False, characters = None, autoLayout = None,
        isAbsolutelyPositioned = False, zIndex = None, svgString = None,
        sourceTag = Some ''DIV''\<rparr> []"


section \<open>Notions used in the statements\<close>



text \<open>Every node of a tree has \<open>visible\<close> set.\<close>

fun all_visible :: "LayerMeta \<Rightarrow> bool" where
  "all_visible (LayerMeta f cs) \<longleftrightarrow> visible f \<and> (\<forall>c \<in> set cs. all_visible c)"


section \<open>Properties of the colour parser\<close>

text \<open>
  Claim C4, at the input \<open>linear-gradient(red, green, blue)\<close>: three stops, none with a
  position, and no direction. \<open>parseGradientStops\<close> deletes everything up to the first
  comma as the direction, which here is the first stop, and returns two stops at 0 and 1.
\<close>

theorem parseGradient_without_direction_loses_first_stop:
  "parseGradient ''linear-gradient(red, green, blue)'' =
     Some \<lparr>g_type = linear,
           g_stops =
             [\<lparr>gs_position = Num 0, gs_color = rgba 0 (502 / 1000) 0 1, gs_autoGenerated = False\<rparr>,
              \<lparr>gs_position = Num 1, gs_color = rgba 0 0 1 1, gs_autoGenerated = False\<rparr>],
           g_angle = Some (Num 180)\<rparr>"
  by code_simp

text \<open>With a direction written before them, three stops without positions get 0, 1/2 and 1.\<close>

lemma parseGradient_with_direction:
  "map_option (\<lambda>g. map gs_position (g_stops g))
     (parseGradient ''linear-gradient(to right, red, green, blue)'') =
     Some [Num 0, Num (1 / 2), Num 1]"
  by code_simp

text \<open>
  Claim C5, at the input \<open>hsla(0, 0%, 0%, 5)\<close>: the \<open>hsl\<close> branch returns the alpha it
  read, 5, where the \<open>rgb\<close> branches pass every channel through \<open>clamp01\<close>.
\<close>

theorem parseColor_hsla_alpha_not_clamped:
  "parseColor ''hsla(0, 0%, 0%, 5)'' None =
     \<lparr>rgba_r = Num 0, rgba_g = Num 0, rgba_b = Num 0, rgba_a = Num 5\<rparr>"
  by code_simp

text \<open>The same branch gives \<open>NaN\<close> for an alpha that is a lone dot, and channels outside [0,1].\<close>

lemma parseColor_hsla_alpha_nan:
  "parseColor ''hsla(0, 0%, 0%, .)'' None =
     \<lparr>rgba_r = Num 0, rgba_g = Num 0, rgba_b = Num 0, rgba_a = NaN\<rparr>"
  by code_simp

lemma parseColor_hsl_channels_not_clamped:
  "parseColor ''hsl(0, 200%, 50%)'' None =
     \<lparr>rgba_r = Num (3 / 2), rgba_g = Num (- (1 / 2)), rgba_b = Num (- (1 / 2)), rgba_a = Num 1\<rparr>"
  by code_simp



section \<open>Properties of the style resolvers\<close>

lemma background_layer_kind:
  "background_layer resolve styles bg = Some p \<Longrightarrow> is_image_or_gradient p"
  by (auto simp: background_layer_def Let_def split: if_splits option.splits)

lemma map_filter_background_layers:
  "list_all is_image_or_gradient (List.map_filter (background_layer resolve styles) bgs)"
  by (induction bgs) (auto simp: List.map_filter_simps background_layer_kind split: option.splits)

text \<open>
  Claim C1. The background colour is present when the property is not empty, and not
  transparent when neither \<open>isTransparentColorString\<close> holds of its text nor
  \<open>isTransparent\<close> of the parsed colour (the two tests of \<open>parseBackground\<close>). Then the
  fills end with the solid paint of that colour, every paint before it is an image or a
  gradient, and those are exactly the paints of the \<open>background-image\<close> entries, in
  order: the solid paint is appended whether or not there are any.
\<close>

theorem parseBackground_trailing_solid:
  assumes "styles ''backgroundColor'' \<noteq> []"
    and "\<not> isTransparentColorString (styles ''backgroundColor'')"
    and "\<not> isTransparent (parseColor (styles ''backgroundColor'')
                                      (Some (parseColor (styles ''color'') None)))"
  shows "\<exists>layers.
           parseBackground resolve styles =
             layers @ [SOLID (parseColor (styles ''backgroundColor'')
                                         (Some (parseColor (styles ''color'') None))) 1 True]
           \<and> list_all is_image_or_gradient layers
           \<and> (styles ''backgroundImage'' \<noteq> [] \<and> styles ''backgroundImage'' \<noteq> ''none'' \<longrightarrow>
                layers = List.map_filter (background_layer resolve styles)
                           (splitBackgroundImages (styles ''backgroundImage'')))
           \<and> (\<forall>i < length (parseBackground resolve styles).
                 is_image_or_gradient (parseBackground resolve styles ! i) \<longrightarrow>
                 i < length (parseBackground resolve styles) - 1)"
proof -
  define c where "c = parseColor (styles ''backgroundColor'') (Some (parseColor (styles ''color'') None))"
  define layers where
    "layers = (if styles ''backgroundImage'' \<noteq> [] \<and> styles ''backgroundImage'' \<noteq> ''none''
               then List.map_filter (background_layer resolve styles)
                      (splitBackgroundImages (styles ''backgroundImage''))
               else [])"
  have eq: "parseBackground resolve styles = layers @ [SOLID c 1 True]"
    using assms by (simp add: parseBackground_def Let_def c_def layers_def)
  have kinds: "list_all is_image_or_gradient layers"
    by (simp add: layers_def map_filter_background_layers)
  have pos: "\<forall>i < length (layers @ [SOLID c 1 True]).
               is_image_or_gradient ((layers @ [SOLID c 1 True]) ! i) \<longrightarrow>
               i < length (layers @ [SOLID c 1 True]) - 1"
  proof (intro allI impI)
    fix i
    assume "i < length (layers @ [SOLID c 1 True])"
      and ig: "is_image_or_gradient ((layers @ [SOLID c 1 True]) ! i)"
    then have "i \<le> length layers" by simp
    moreover have "i \<noteq> length layers" using ig by auto
    ultimately show "i < length (layers @ [SOLID c 1 True]) - 1" by simp
  qed
  show ?thesis
    unfolding eq using kinds pos by (auto simp: c_def layers_def)
qed

text \<open>
  The first of the two tests looks at the text only: it also rejects an \<open>rgba()\<close> of
  three numbers ending in 0, a form that computed styles do not take.
\<close>

lemma isTransparentColorString_three_numbers:
  "isTransparentColorString ''rgba(255, 0, 0)''"
  by code_simp

theorem parseBackground_trailing_solid_witness:
  "parseBackground id layered_background =
     [IMAGE ''a.png'' FILL 1 True,
      GRADIENT_LINEAR
        [\<lparr>gs_position = Num 0, gs_color = rgba 1 0 0 1, gs_autoGenerated = False\<rparr>,
         \<lparr>gs_position = Num 1, gs_color = rgba 0 0 1 1, gs_autoGenerated = False\<rparr>]
        (Some (Num 90)) 1 True,
      SOLID (rgba 1 0 0 1) 1 True]
   \<and> (\<exists>layers.
         parseBackground id layered_background = layers @ [SOLID (rgba 1 0 0 1) 1 True]
         \<and> list_all is_image_or_gradient layers)"
proof -
  have h1: "layered_background ''backgroundColor'' \<noteq> []"
    by code_simp
  have h2: "\<not> isTransparentColorString (layered_background ''backgroundColor'')"
    by code_simp
  have h3: "\<not> isTransparent (parseColor (layered_background ''backgroundColor'')
                                         (Some (parseColor (layered_background ''color'') None)))"
    by code_simp
  have c: "parseColor (layered_background ''backgroundColor'')
             (Some (parseColor (layered_background ''color'') None)) = rgba 1 0 0 1"
    by code_simp
  have v: "parseBackground id layered_background =
     [IMAGE ''a.png'' FILL 1 True,
      GRADIENT_LINEAR
        [\<lparr>gs_position = Num 0, gs_color = rgba 1 0 0 1, gs_autoGenerated = False\<rparr>,
         \<lparr>gs_position = Num 1, gs_color = rgba 0 0 1 1, gs_autoGenerated = False\<rparr>]
        (Some (Num 90)) 1 True,
      SOLID (rgba 1 0 0 1) 1 True]"
    by code_simp
  from parseBackground_trailing_solid [OF h1 h2 h3, of id]
  have "\<exists>layers.
         parseBackground id layered_background = layers @ [SOLID (rgba 1 0 0 1) 1 True]
         \<and> list_all is_image_or_gradient layers"
    unfolding c by blast
  with v show ?thesis by blast
qed



text \<open>
  Claim C8, at the input \<open>150%\<close> with a font size of 16 pixels: the number read is 150
  and, the text holding no \<open>px\<close>, it is multiplied by the font size as a ratio would be.
  The result is 2400, not 1.5 times 16.
\<close>

theorem parseLineHeight_percentage_not_scaled:
  "parseLineHeight ''150%'' ''16px'' = LineHeight 2400"
  by code_simp

text \<open>The other cases of \<open>parseLineHeight\<close>.\<close>

lemma parseLineHeight_cases:
  "parseLineHeight ''normal'' fontSize =
     LineHeight (math_round (or_num (parseFloat fontSize) 16 * (12 / 10) * 100) / 100)"
  "lineHeight \<noteq> ''normal'' \<Longrightarrow> parseFloat lineHeight = NaN \<Longrightarrow>
     parseLineHeight lineHeight fontSize = LineHeightAUTO"
  "lineHeight \<noteq> ''normal'' \<Longrightarrow> parseFloat lineHeight = Num lh \<Longrightarrow> str_includes lineHeight ''px'' \<Longrightarrow>
     parseLineHeight lineHeight fontSize = LineHeight lh"
  "lineHeight \<noteq> ''normal'' \<Longrightarrow> parseFloat lineHeight = Num lh \<Longrightarrow> \<not> str_includes lineHeight ''px'' \<Longrightarrow>
     parseLineHeight lineHeight fontSize = LineHeight (lh * or_num (parseFloat fontSize) 16)"
  by (simp_all add: parseLineHeight_def Let_def)

lemma parseLineHeight_examples:
  "parseLineHeight ''normal'' ''16px'' = LineHeight (192 / 10)"
  "parseLineHeight ''1.5'' ''16px'' = LineHeight 24"
  "parseLineHeight ''24px'' ''16px'' = LineHeight 24"
  "parseLineHeight ''inherit'' ''16px'' = LineHeightAUTO"
  by code_simp+

section \<open>Properties of the tree builder\<close>

text \<open>
  Claim C9, as stated, at a visible block of width 0 and height 10: its area is 0, yet
  the builder returns a layer for it.
\<close>

theorem zero_area_box_is_converted:
  "domToLayer id thin_bar no_options = Some thin_bar_layer
   \<and> r_width (e_rect (el_info thin_bar)) * r_height (e_rect (el_info thin_bar)) = 0"
  by code_simp

text \<open>
  Claim C9, amended. \<open>convertElement\<close> returns \<open>null\<close> exactly when the depth exceeds
  the maximum, or the tag is non-visual, or hidden elements are not asked for and the
  element has \<open>display: none\<close>, \<open>visibility: hidden\<close> or an opacity of at most 0, or the
  box has width 0 and height 0. \<open>domToLayer\<close> enters at depth 0 with the options laid over
  the defaults, where the maximum depth is 50 and hidden elements are not asked for.
\<close>

theorem convertElement_null_cases:
  "(convertElement resolve options depth (Element e kids) = None \<longleftrightarrow>
      of_nat depth > maxDepth options
      \<or> isNonVisualElement (toLowerCase (e_tagName e))
      \<or> (\<not> includeHidden options
          \<and> (e_styles e ''display'' = ''none'' \<or> e_styles e ''visibility'' = ''hidden''
              \<or> parseOpacity (e_styles e) \<le> 0))
      \<or> (r_width (e_rect e) = 0 \<and> r_height (e_rect e) = 0))
   \<and> domToLayer resolve el given = convertElement resolve (merge_options given) 0 el
   \<and> maxDepth (merge_options no_options) = 50
   \<and> \<not> includeHidden (merge_options no_options)"
proof -
  have "\<not> isVisible (e_styles e) \<longleftrightarrow>
          e_styles e ''display'' = ''none'' \<or> e_styles e ''visibility'' = ''hidden''
          \<or> parseOpacity (e_styles e) \<le> 0"
    by (auto simp: isVisible_def)
  then have "convertElement resolve options depth (Element e kids) = None \<longleftrightarrow>
      of_nat depth > maxDepth options
      \<or> isNonVisualElement (toLowerCase (e_tagName e))
      \<or> (\<not> includeHidden options
          \<and> (e_styles e ''display'' = ''none'' \<or> e_styles e ''visibility'' = ''hidden''
              \<or> parseOpacity (e_styles e) \<le> 0))
      \<or> (r_width (e_rect e) = 0 \<and> r_height (e_rect e) = 0)"
    by (simp add: Let_def)
  moreover have "maxDepth (merge_options no_options) = 50 \<and> \<not> includeHidden (merge_options no_options)"
    by (simp add: merge_options_def no_options_def DEFAULT_OPTIONS_def)
  ultimately show ?thesis
    by (simp add: domToLayer_def)
qed

theorem convertElement_null_cases_witness:
  "isNonVisualElement (toLowerCase (e_tagName (el_info script_element)))
   \<and> convertElement id (merge_options no_options) 0 (Element (el_info script_element) []) = None"
proof -
  have h: "isNonVisualElement (toLowerCase (e_tagName (el_info script_element)))"
    by code_simp
  from convertElement_null_cases [of id "merge_options no_options" 0 "el_info script_element" "[]"] h
  show ?thesis by blast
qed

subsection \<open>Visibility\<close>

lemma all_visible_wrapper: "all_visible c \<Longrightarrow> all_visible (wrapper_frame v ca g c)"
  by (cases c) (simp add: wrapper_frame_def)

lemma wrap_loop_visible:
  "\<forall>c \<in> set cs. all_visible c \<Longrightarrow> \<forall>c \<in> set (wrap_loop v ca m cs gs). all_visible c"
  by (induction cs arbitrary: gs) (auto simp: all_visible_wrapper split: list.splits)

lemma infer_gaps_visible:
  "\<forall>c \<in> set cs. all_visible c \<Longrightarrow> \<forall>c \<in> set (snd (infer_gaps display al cs)). all_visible c"
  using wrap_loop_visible by (auto simp: infer_gaps_def Let_def)

lemma layout_post_pass_visible:
  "visible (fst (layout_post_pass display layer cs)) = visible layer"
  by (auto simp: layout_post_pass_def Let_def split: option.splits prod.splits)

lemma layout_post_pass_children_visible:
  "\<forall>c \<in> set cs. all_visible c \<Longrightarrow> \<forall>c \<in> set (snd (layout_post_pass display layer cs)). all_visible c"
  using infer_gaps_visible [of cs]
  by (auto simp: layout_post_pass_def Let_def split: option.splits prod.splits) (metis snd_conv)

lemma text_child_step_visible:
  "visible (fst (text_child_step e layer built)) = visible layer"
  by (auto simp: text_child_step_def Let_def split: prod.splits)

lemma text_child_step_children_visible:
  "\<forall>c \<in> set built. all_visible c \<Longrightarrow> \<forall>c \<in> set (snd (text_child_step e layer built)). all_visible c"
  by (auto simp: text_child_step_def Let_def split: prod.splits)

lemma capturePseudoElement_visible:
  "capturePseudoElement resolve e pseudo ps = Some l \<Longrightarrow> all_visible l"
  by (auto simp: capturePseudoElement_def Let_def split: if_splits option.splits)

lemma add_pseudo_elements_visible:
  "\<forall>c \<in> set cs. all_visible c \<Longrightarrow> \<forall>c \<in> set (add_pseudo_elements resolve e cs). all_visible c"
  by (auto simp: add_pseudo_elements_def Let_def capturePseudoElement_visible split: option.splits)

lemma set_sort_by_z: "set (sort_by_z cs) = set cs"
  by (simp add: sort_by_z_def)

lemma adjust_for_fixed_visible: "all_visible c \<Longrightarrow> all_visible (adjust_for_fixed fth c)"
  by (cases c) (simp add: adjust_for_fixed_def set_y_def)

lemma own_steps_visible:
  "visible (base_layer resolve options el) = True"
  "visible (form_control_step e layer) = visible layer"
  "visible (max_width_step e layer) = visible layer"
  "visible (text_step e layer) = visible layer"
  "visible (image_step options e layer) = visible layer"
  "visible (auto_layout_step e layer) = visible layer"
  by (auto simp: base_layer_def form_control_step_def max_width_step_def text_step_def
        image_step_def auto_layout_step_def Let_def split: option.splits jsnum.splits)

lemma convertElement_visible:
  "convertElement resolve options depth el = Some l \<Longrightarrow> all_visible l"
proof (induction el arbitrary: options depth l)
  case (Element e kids)
  define childOptions where
    "childOptions = options\<lparr>rootOffset := (r_left (e_rect e), r_top (e_rect e))\<rparr>"
  define built where
    "built = concat (map (\<lambda>child.
                case convertElement resolve childOptions (depth + 1) child of
                  None \<Rightarrow> []
                | Some childLayer \<Rightarrow> [adjust_for_fixed (fixedTopHeight kids) childLayer]) kids)"
  define layer1 where
    "layer1 = text_step e (max_width_step e (form_control_step e
                (base_layer resolve options (Element e kids))))"
  define layer2 where "layer2 = auto_layout_step e (image_step options e layer1)"
  define withText where "withText = text_child_step e layer2 built"
  define cs where "cs = add_pseudo_elements resolve e (sort_by_z (snd withText))"
  define final where "final = layout_post_pass (e_styles e ''display'') (fst withText) cs"
  have v1: "visible layer1" and v2: "visible layer2"
    by (simp_all add: layer1_def layer2_def own_steps_visible)
  have built_vis: "\<forall>c \<in> set built. all_visible c"
    unfolding built_def using Element.IH
    by (auto split: option.splits intro: adjust_for_fixed_visible)
  then have "\<forall>c \<in> set (snd withText). all_visible c"
    unfolding withText_def by (rule text_child_step_children_visible)
  then have "\<forall>c \<in> set cs. all_visible c"
    unfolding cs_def by (intro add_pseudo_elements_visible) (simp add: set_sort_by_z)
  then have final_children: "\<forall>c \<in> set (snd final). all_visible c"
    unfolding final_def by (rule layout_post_pass_children_visible)
  have final_layer: "visible (fst final)"
    by (simp add: final_def layout_post_pass_visible withText_def text_child_step_visible v2)
  have result: "l = LayerMeta (layer1\<lparr>svgString := e_sanitizedSvg e\<rparr>) []
                \<or> l = LayerMeta (fst final) (snd final)
                \<or> l = LayerMeta layer2 []"
    using Element.prems
    by (simp add: Let_def layer1_def layer2_def withText_def cs_def final_def built_def
          childOptions_def split: if_splits)
  then show ?case
    using v1 v2 final_layer final_children by auto
qed

text \<open>
  Claim C10. Every node of a tree returned by \<open>domToLayer\<close> has \<open>visible\<close> set to true,
  whatever the options: the node of each element, the text children, the wrapper frames
  and the pseudo-element nodes. Asking for hidden elements changes which elements get a
  node, not the field.
\<close>

theorem domToLayer_all_visible:
  "domToLayer resolve el given = Some l \<Longrightarrow> all_visible l"
  unfolding domToLayer_def by (rule convertElement_visible)

theorem domToLayer_all_visible_witness:
  "domToLayer id hidden_bar with_hidden = Some hidden_bar_layer
   \<and> e_styles (el_info hidden_bar) ''display'' = ''none''
   \<and> all_visible hidden_bar_layer"
proof -
  have r: "domToLayer id hidden_bar with_hidden = Some hidden_bar_layer"
    by code_simp
  have d: "e_styles (el_info hidden_bar) ''display'' = ''none''"
    by code_simp
  from domToLayer_all_visible [OF r] r d show ?thesis by blast
qed

subsection \<open>Gap inference\<close>












subsection \<open>Order of the children\<close>










end
